theory Spec2Isabelle
  imports Main
begin

section \<open>Data model of middlewared/plugins/backup.py\<close>

text \<open>
  The module runs under Python 3: what a pipe or a binary file yields is a \<open>bytes\<close>
  object (the source compares every read with \<open>b''\<close>), while a literal such as
  \<open>'AMAZON'\<close> or the pattern of \<open>RE_TRANSF\<close> is a \<open>str\<close>. Both are character
  lists here (an Isabelle \<open>char\<close> is one 8-bit value); \<open>pyval\<close> keeps the two
  apart where the source hands a value to code that tells them apart.
\<close>

type_synonym bytes = string

datatype pyval = PyNone | PyStr string | PyBytes bytes

datatype error =
    ValueError string
  | NotImplementedError string
  | KeyError string
  | TypeError string
  | OSError string
  | RuntimeError string
  | ClientError string

text \<open>\<open>CHUNK_SIZE = 5 * 1024 * 1024\<close>\<close>

definition CHUNK_SIZE :: nat where
  "CHUNK_SIZE = 5 * 1024 * 1024"

text \<open>
  Rows of the datastore. \<open>backup['credential']['id']\<close> is the only part of the
  credential reference the module reads; \<open>attributes\<close> is a free-form dictionary in
  both tables, so reading a key that is absent raises \<open>KeyError\<close>.
\<close>

record backup =
  backup_id :: int
  backup_path :: string
  backup_credential_id :: int
  backup_attributes :: "string \<rightharpoonup> pyval"

record credential =
  credential_id :: int
  credential_provider :: string
  credential_attributes :: "string \<rightharpoonup> pyval"

text \<open>One entry of the \<open>Parts\<close> list handed to \<open>complete_multipart_upload\<close>.\<close>

record part =
  ETag :: string
  PartNumber :: nat

text \<open>What \<open>boto3.client('s3', aws_access_key_id=..., aws_secret_access_key=...)\<close> is built from.\<close>

record s3_client =
  aws_access_key_id :: pyval
  aws_secret_access_key :: pyval

text \<open>
  The object store behind the client is not part of the module. It is a parameter: four
  operations over a store state \<open>'s\<close>, each of which may raise. The arguments are the
  keyword arguments of the source, in the source's order.
\<close>

record 's s3 =
  create_multipart_upload ::
    "s3_client \<Rightarrow> pyval \<Rightarrow> string \<Rightarrow> 's \<Rightarrow> (error + string) \<times> 's"
  upload_part ::
    "s3_client \<Rightarrow> pyval \<Rightarrow> string \<Rightarrow> nat \<Rightarrow> string \<Rightarrow> nat \<Rightarrow> bytes \<Rightarrow> 's \<Rightarrow> (error + string) \<times> 's"
  complete_multipart_upload ::
    "s3_client \<Rightarrow> pyval \<Rightarrow> string \<Rightarrow> string \<Rightarrow> part list \<Rightarrow> 's \<Rightarrow> (error + unit) \<times> 's"
  get_object ::
    "s3_client \<Rightarrow> pyval \<Rightarrow> string \<Rightarrow> 's \<Rightarrow> (error + bytes) \<times> 's"

text \<open>
  Every effect the module has on its surroundings is appended to a trace, with the
  arguments the source passes and, for a call that answers, the answer. What
  \<open>job.set_progress\<close> publishes is kept apart, in \<open>progress\<close>: the scanner that
  publishes runs beside the caller, so its place among the other effects is not fixed.
\<close>

datatype event =
    Datastore_Query string int
  | Create_Multipart_Upload pyval string "error + string"
  | Upload_Part pyval string nat string nat bytes "error + string"
  | Complete_Multipart_Upload pyval string string "part list" "error + unit"
  | Get_Object pyval string "error + bytes"
  | Tempfile_Create string nat
  | Chmod string nat
  | Write_File string string
  | Popen "string list"
  | Communicate
  | Tempfile_Delete string

record 's world =
  remote :: 's
  trace :: "event list"
  progress :: "(int option \<times> pyval) list"

text \<open>
  The middleware the services call into: the two datastore tables the module queries and
  the object store. \<open>datastore.query\<close> with \<open>{'get': True}\<close> answers one row or a
  false value, which is what the source tests with \<open>if not backup\<close>.
\<close>

record 's middleware =
  tasks_cloudsync :: "int \<rightharpoonup> backup"
  system_cloudcredentials :: "int \<rightharpoonup> credential"
  boto3_s3 :: "'s s3"

definition log :: "event \<Rightarrow> 's world \<Rightarrow> 's world" where
  "log ev w = w\<lparr>trace := trace w @ [ev]\<rparr>"

definition query_cloudsync :: "'s middleware \<Rightarrow> int \<Rightarrow> 's world \<Rightarrow> backup option \<times> 's world" where
  "query_cloudsync mw i w = (tasks_cloudsync mw i, log (Datastore_Query ''tasks.cloudsync'' i) w)"

definition query_cloudcredentials ::
  "'s middleware \<Rightarrow> int \<Rightarrow> 's world \<Rightarrow> credential option \<times> 's world" where
  "query_cloudcredentials mw i w =
     (system_cloudcredentials mw i, log (Datastore_Query ''system.cloudcredentials'' i) w)"

text \<open>\<open>d[k]\<close>, \<open>d.get(k)\<close> and \<open>v or ''\<close> on an attribute dictionary.\<close>

definition getitem :: "(string \<rightharpoonup> pyval) \<Rightarrow> string \<Rightarrow> error + pyval" where
  "getitem d k = (case d k of None \<Rightarrow> Inl (KeyError k) | Some v \<Rightarrow> Inr v)"

definition dict_get :: "(string \<rightharpoonup> pyval) \<Rightarrow> string \<Rightarrow> pyval" where
  "dict_get d k = (case d k of None \<Rightarrow> PyNone | Some v \<Rightarrow> v)"

fun truthy :: "pyval \<Rightarrow> bool" where
  "truthy PyNone = False"
| "truthy (PyStr s) = (s \<noteq> [])"
| "truthy (PyBytes b) = (b \<noteq> [])"

definition or_empty :: "pyval \<Rightarrow> pyval" where
  "or_empty v = (if truthy v then v else PyStr [])"

section \<open>The four calls of the client, each recorded with its answer\<close>

definition call_create_multipart_upload ::
  "'s s3 \<Rightarrow> s3_client \<Rightarrow> pyval \<Rightarrow> string \<Rightarrow> 's world \<Rightarrow> (error + string) \<times> 's world" where
  "call_create_multipart_upload c cl bucket key w =
     (case create_multipart_upload c cl bucket key (remote w) of
        (r, s') \<Rightarrow> (r, log (Create_Multipart_Upload bucket key r) (w\<lparr>remote := s'\<rparr>)))"

definition call_upload_part ::
  "'s s3 \<Rightarrow> s3_client \<Rightarrow> pyval \<Rightarrow> string \<Rightarrow> nat \<Rightarrow> string \<Rightarrow> nat \<Rightarrow> bytes \<Rightarrow> 's world
     \<Rightarrow> (error + string) \<times> 's world" where
  "call_upload_part c cl bucket key n uid len body w =
     (case upload_part c cl bucket key n uid len body (remote w) of
        (r, s') \<Rightarrow> (r, log (Upload_Part bucket key n uid len body r) (w\<lparr>remote := s'\<rparr>)))"

definition call_complete_multipart_upload ::
  "'s s3 \<Rightarrow> s3_client \<Rightarrow> pyval \<Rightarrow> string \<Rightarrow> string \<Rightarrow> part list \<Rightarrow> 's world
     \<Rightarrow> (error + unit) \<times> 's world" where
  "call_complete_multipart_upload c cl bucket key uid ps w =
     (case complete_multipart_upload c cl bucket key uid ps (remote w) of
        (r, s') \<Rightarrow> (r, log (Complete_Multipart_Upload bucket key uid ps r) (w\<lparr>remote := s'\<rparr>)))"

definition call_get_object ::
  "'s s3 \<Rightarrow> s3_client \<Rightarrow> pyval \<Rightarrow> string \<Rightarrow> 's world \<Rightarrow> (error + bytes) \<times> 's world" where
  "call_get_object c cl bucket key w =
     (case get_object c cl bucket key (remote w) of
        (r, s') \<Rightarrow> (r, log (Get_Object bucket key r) (w\<lparr>remote := s'\<rparr>)))"

section \<open>BackupS3Service.get_client\<close>

text \<open>
  \<open>credential['attributes']\<close> on a query that found no row subscripts a false value
  and raises \<open>TypeError\<close>. Building the client object itself reaches nothing outside.
\<close>

definition get_client :: "'s middleware \<Rightarrow> int \<Rightarrow> 's world \<Rightarrow> (error + s3_client) \<times> 's world" where
  "get_client mw i w =
     (case query_cloudcredentials mw i w of
        (None, w') \<Rightarrow> (Inl (TypeError ''NoneType object is not subscriptable''), w')
      | (Some credential, w') \<Rightarrow>
          (Inr \<lparr>aws_access_key_id = dict_get (credential_attributes credential) ''access_key'',
                aws_secret_access_key = dict_get (credential_attributes credential) ''secret_key''\<rparr>,
           w'))"

section \<open>BackupS3Service.put\<close>

text \<open>\<open>os.path.join(folder, filename)\<close> on POSIX, for two components.\<close>

definition os_path_join :: "string \<Rightarrow> string \<Rightarrow> string" where
  "os_path_join a b =
     (if take 1 b = ''/'' then b
      else if a = [] \<or> last a = CHR ''/'' then a @ b
      else a @ ''/'' @ b)"

text \<open>
  \<open>backup['attributes']['folder'] or ''\<close> joined with the file name. A folder that is
  neither absent nor a string cannot be joined.
\<close>

definition remote_key :: "backup \<Rightarrow> string \<Rightarrow> error + string" where
  "remote_key b filename =
     (case getitem (backup_attributes b) ''folder'' of
        Inl e \<Rightarrow> Inl e
      | Inr v \<Rightarrow>
          (case or_empty v of
             PyStr folder \<Rightarrow> Inr (os_path_join folder filename)
           | _ \<Rightarrow> Inl (TypeError ''join() argument must be str'')))"

text \<open>
  The \<open>while True\<close> loop of \<open>put\<close>. The stream \<open>f\<close> is what is still unread;
  \<open>fg.read(CHUNK_SIZE)\<close> on the buffered reader yields the next \<open>CHUNK_SIZE\<close> bytes,
  fewer only at the end of the stream, and \<open>b''\<close> once nothing is left. The bucket is
  looked up again in each round of the source; the lookup before the loop has succeeded,
  so it is passed on here.
\<close>

function put_loop ::
  "'s s3 \<Rightarrow> s3_client \<Rightarrow> pyval \<Rightarrow> string \<Rightarrow> string \<Rightarrow> bytes \<Rightarrow> part list \<Rightarrow> nat \<Rightarrow> 's world
     \<Rightarrow> (error + part list) \<times> 's world" where
  "put_loop c cl bucket key uid f parts idx w =
     (if take CHUNK_SIZE f = [] then (Inr parts, w)
      else
        (case call_upload_part c cl bucket key idx uid CHUNK_SIZE (take CHUNK_SIZE f) w of
           (Inl e, w') \<Rightarrow> (Inl e, w')
         | (Inr etag, w') \<Rightarrow>
             put_loop c cl bucket key uid (drop CHUNK_SIZE f)
               (parts @ [\<lparr>ETag = etag, PartNumber = idx\<rparr>]) (idx + 1) w'))"
  by pat_completeness auto
termination
  by (relation "measure (\<lambda>(c, cl, bucket, key, uid, f, parts, idx, w). length f)")
     (auto simp: CHUNK_SIZE_def)

declare put_loop.simps [simp del]

text \<open>
  \<open>put\<close> and \<open>get\<close> hand \<open>backup['id']\<close>, the id of the task, to \<open>get_client\<close>,
  which looks a credential up under that id.
\<close>

definition put ::
  "'s middleware \<Rightarrow> backup \<Rightarrow> string \<Rightarrow> bytes \<Rightarrow> 's world \<Rightarrow> (error + unit) \<times> 's world" where
  "put mw b filename f w =
     (case get_client mw (backup_id b) w of
        (Inl e, w1) \<Rightarrow> (Inl e, w1)
      | (Inr client, w1) \<Rightarrow>
     (case remote_key b filename of
        Inl e \<Rightarrow> (Inl e, w1)
      | Inr key \<Rightarrow>
     (case getitem (backup_attributes b) ''bucket'' of
        Inl e \<Rightarrow> (Inl e, w1)
      | Inr bucket \<Rightarrow>
     (case call_create_multipart_upload (boto3_s3 mw) client bucket key w1 of
        (Inl e, w2) \<Rightarrow> (Inl e, w2)
      | (Inr uid, w2) \<Rightarrow>
     (case put_loop (boto3_s3 mw) client bucket key uid f [] 1 w2 of
        (Inl e, w3) \<Rightarrow> (Inl e, w3)
      | (Inr parts, w3) \<Rightarrow>
          call_complete_multipart_upload (boto3_s3 mw) client bucket key uid parts w3)))))"


section \<open>BackupS3Service.get\<close>

text \<open>
  \<open>get\<close> writes through \<open>fg = gevent.fileobject.FileObject(f, 'wb', close=False)\<close>, a
  buffered writer of its own on the descriptor, with a buffer of
  \<open>io.DEFAULT_BUFFER_SIZE\<close> bytes.
\<close>

definition DEFAULT_BUFFER_SIZE :: nat where
  "DEFAULT_BUFFER_SIZE = 8192"

text \<open>
  \<open>fg.write(data)\<close>. The state is what has reached the descriptor and what waits in
  the buffer. Data that fits into the free part of the buffer is kept there. Otherwise
  the buffer is written out; data larger than the buffer then goes to the descriptor
  directly, smaller data becomes the new content of the buffer. A write to the descriptor
  is taken to write all it is handed.
\<close>

definition fg_write :: "bytes \<Rightarrow> bytes \<times> bytes \<Rightarrow> bytes \<times> bytes" where
  "fg_write data st =
     (case st of (out, buf) \<Rightarrow>
        if length data \<le> DEFAULT_BUFFER_SIZE - length buf then (out, buf @ data)
        else if DEFAULT_BUFFER_SIZE < length data then (out @ buf @ data, [])
        else (out @ buf, data))"

text \<open>
  The \<open>while True\<close> loop of \<open>get\<close>: \<open>body\<close> is what \<open>obj['Body']\<close> has still to
  deliver, \<open>st\<close> the state of the writer.
\<close>

function get_loop :: "bytes \<Rightarrow> bytes \<times> bytes \<Rightarrow> bytes \<times> bytes" where
  "get_loop body st =
     (if take CHUNK_SIZE body = [] then st
      else get_loop (drop CHUNK_SIZE body) (fg_write (take CHUNK_SIZE body) st))"
  by pat_completeness auto
termination
  by (relation "measure (\<lambda>(body, st). length body)") (auto simp: CHUNK_SIZE_def)

declare get_loop.simps [simp del]

text \<open>
  The second component of the result is what has reached \<open>write_fd\<close> when \<open>get\<close>
  returns. The source neither flushes nor closes \<open>fg\<close>: after the loop the \<open>with\<close>
  block closes \<open>f\<close>, whose own buffer is empty, and with it the descriptor, so what
  still waits in the buffer of \<open>fg\<close> does not arrive. (\<open>sync\<close> calls \<open>fg.flush()\<close>
  after its write; \<open>get\<close> has no such call.)
\<close>

definition get ::
  "'s middleware \<Rightarrow> backup \<Rightarrow> string \<Rightarrow> 's world \<Rightarrow> (error + unit) \<times> bytes \<times> 's world" where
  "get mw b filename w =
     (case get_client mw (backup_id b) w of
        (Inl e, w1) \<Rightarrow> (Inl e, [], w1)
      | (Inr client, w1) \<Rightarrow>
     (case remote_key b filename of
        Inl e \<Rightarrow> (Inl e, [], w1)
      | Inr key \<Rightarrow>
     (case getitem (backup_attributes b) ''bucket'' of
        Inl e \<Rightarrow> (Inl e, [], w1)
      | Inr bucket \<Rightarrow>
     (case call_get_object (boto3_s3 mw) client bucket key w1 of
        (Inl e, w2) \<Rightarrow> (Inl e, [], w2)
      | (Inr body, w2) \<Rightarrow> (Inr (), fst (get_loop body ([], [])), w2)))))"

section \<open>BackupS3Service.sync\<close>

text \<open>
  What the operating system contributes to one run: the name
  \<open>tempfile.NamedTemporaryFile()\<close> picks, and the process \<open>subprocess.Popen\<close> starts
  (or the error it raises). The process has one error stream, \<open>proc.stderr\<close>, given
  here as the lines it writes, and an exit code. Two readers take from that one stream:
  the scanner with \<open>proc.stderr.readline()\<close> and \<open>proc.communicate()\<close>. How they
  share it is decided by the scheduling of the run: \<open>scanner_turns\<close> is the number of
  lines the scanner's \<open>readline\<close> takes from the stream, which \<open>communicate\<close> then
  no longer finds, and \<open>communicate_error\<close> is the error \<open>communicate\<close> raises (for
  one, when it finds the stream in use by the scanner), if it raises.
\<close>

record proc =
  proc_stderr :: "bytes list"
  returncode :: int
  scanner_turns :: nat
  communicate_error :: "error option"

text \<open>\<open>proc.communicate()[1]\<close>: what is left of the error stream, or the error raised.\<close>

definition communicate :: "proc \<Rightarrow> error + bytes" where
  "communicate p =
     (case communicate_error p of
        Some e \<Rightarrow> Inl e
      | None \<Rightarrow> Inr (concat (drop (scanner_turns p) (proc_stderr p))))"

record system =
  tmp_name :: string
  popen :: "string list \<Rightarrow> error + proc"

text \<open>\<open>repr\<close> of a \<open>bytes\<close> object, which is what \<open>'{}'.format\<close> inserts for one.\<close>

definition hexdigit :: "nat \<Rightarrow> char" where
  "hexdigit n = ''0123456789abcdef'' ! (n mod 16)"

definition repr_byte :: "char \<Rightarrow> char \<Rightarrow> string" where
  "repr_byte quote c =
     (if c = quote \<or> c = CHR 0x5C then [CHR 0x5C, c]
      else if c = CHR 0x09 then [CHR 0x5C, CHR ''t'']
      else if c = CHR 0x0A then [CHR 0x5C, CHR ''n'']
      else if c = CHR 0x0D then [CHR 0x5C, CHR ''r'']
      else if of_char c < (0x20 :: nat) \<or> (0x7F :: nat) \<le> of_char c
        then [CHR 0x5C, CHR ''x'', hexdigit (of_char c div 16), hexdigit (of_char c)]
      else [c])"

definition bytes_repr :: "bytes \<Rightarrow> string" where
  "bytes_repr b =
     (let quote = (if CHR 0x27 \<in> set b \<and> CHR 0x22 \<notin> set b then CHR 0x22 else CHR 0x27)
      in ''b'' @ [quote] @ concat (map (repr_byte quote) b) @ [quote])"

fun py_format :: "pyval \<Rightarrow> string" where
  "py_format PyNone = ''None''"
| "py_format (PyStr s) = s"
| "py_format (PyBytes b) = bytes_repr b"

text \<open>The text written to the temporary file.\<close>

definition rclone_config :: "pyval \<Rightarrow> pyval \<Rightarrow> pyval \<Rightarrow> string" where
  "rclone_config access_key secret_key region =
     ''[remote]'' @ [CHR 0x0A] @
     ''type = s3'' @ [CHR 0x0A] @
     ''env_auth = false'' @ [CHR 0x0A] @
     ''access_key_id = '' @ py_format access_key @ [CHR 0x0A] @
     ''secret_access_key = '' @ py_format secret_key @ [CHR 0x0A] @
     ''region = '' @ py_format region @ [CHR 0x0A]"

text \<open>
  \<open>RE_TRANSF = re.compile(r'Transferred:\s*?(.+)$', re.S)\<close>. On a \<open>str\<close> the search
  tries each position from the left; the lazy \<open>\s*?\<close> takes nothing first, and with
  \<open>re.S\<close> the greedy \<open>(.+)\<close> then takes everything up to the end, where \<open>$\<close> holds:
  group 1 is all that follows the leftmost \<open>Transferred:\<close>, and there is a match exactly
  when something follows. The pattern is a \<open>str\<close> pattern: searching a \<open>bytes\<close> object
  with it raises \<open>TypeError\<close>.
\<close>

fun search_str :: "string \<Rightarrow> string option" where
  "search_str [] = None"
| "search_str (c # cs) =
     (if take 12 (c # cs) = ''Transferred:'' \<and> drop 12 (c # cs) \<noteq> [] then Some (drop 12 (c # cs))
      else search_str cs)"

fun RE_TRANSF_search :: "pyval \<Rightarrow> error + string option" where
  "RE_TRANSF_search (PyStr s) = Inr (search_str s)"
| "RE_TRANSF_search (PyBytes b) = Inl (TypeError ''cannot use a string pattern on a bytes-like object'')"
| "RE_TRANSF_search PyNone = Inl (TypeError ''expected string or bytes-like object'')"

text \<open>\<open>strip()\<close> and \<open>isdigit()\<close> on the captured group, over the ASCII range.\<close>

definition isspace :: "char \<Rightarrow> bool" where
  "isspace c = (c = CHR 0x20 \<or> ((0x09 :: nat) \<le> of_char c \<and> of_char c \<le> (0x0D :: nat))
                 \<or> ((0x1C :: nat) \<le> of_char c \<and> of_char c \<le> (0x1F :: nat)))"

definition strip :: "string \<Rightarrow> string" where
  "strip s = rev (dropWhile isspace (rev (dropWhile isspace s)))"

definition isdigit :: "string \<Rightarrow> bool" where
  "isdigit s = (s \<noteq> [] \<and> list_all (\<lambda>c. (0x30 :: nat) \<le> of_char c \<and> of_char c \<le> (0x39 :: nat)) s)"

text \<open>
  \<open>check_progress\<close>: the list holds the lines \<open>proc.stderr.readline()\<close> returns, its
  end is the \<open>b''\<close> of the closed pipe; \<open>pub\<close> is what has been published so far. A
  line read from the pipe is a \<open>bytes\<close> object, and that is what the source hands to
  \<open>RE_TRANSF.search\<close>.
\<close>

fun check_progress ::
  "bytes list \<Rightarrow> (int option \<times> pyval) list \<Rightarrow> (error + unit) \<times> (int option \<times> pyval) list" where
  "check_progress [] pub = (Inr (), pub)"
| "check_progress (read # rest) pub =
     (if read = [] then (Inr (), pub)
      else
        (case RE_TRANSF_search (PyBytes read) of
           Inl e \<Rightarrow> (Inl e, pub)
         | Inr None \<Rightarrow> check_progress rest pub
         | Inr (Some g) \<Rightarrow>
             (let transferred = strip g
              in if \<not> isdigit transferred
                 then check_progress rest (pub @ [(None, PyStr transferred)])
                 else check_progress rest pub)))"

text \<open>The argument list \<open>args\<close> handed to \<open>subprocess.Popen\<close>.\<close>

definition rclone_args :: "system \<Rightarrow> backup \<Rightarrow> pyval \<Rightarrow> string list" where
  "rclone_args os b bucket =
     [''/usr/local/bin/rclone'', ''--config'', tmp_name os, ''--stats'', ''1s'', ''sync'',
      backup_path b, ''remote:'' @ py_format bucket]"

text \<open>
  The body of the \<open>with\<close> block. \<open>gevent.spawn\<close> starts the scanner beside the caller;
  an exception that ends the scanner stays in its greenlet and does not reach \<open>sync\<close>.
  An exception of \<open>proc.communicate()\<close> is raised in \<open>sync\<close> itself and ends it
  before the exit code is looked at.
\<close>

definition mode_0o600 :: nat where
  "mode_0o600 = 6 * 64"

definition sync_with_tempfile ::
  "system \<Rightarrow> backup \<Rightarrow> credential \<Rightarrow> 's world \<Rightarrow> (error + bool) \<times> 's world" where
  "sync_with_tempfile os b credential w =
     (let w1 = log (Chmod (tmp_name os) mode_0o600) w in
      case getitem (credential_attributes credential) ''access_key'' of
        Inl e \<Rightarrow> (Inl e, w1)
      | Inr access_key \<Rightarrow>
     (case getitem (credential_attributes credential) ''secret_key'' of
        Inl e \<Rightarrow> (Inl e, w1)
      | Inr secret_key \<Rightarrow>
     (case getitem (backup_attributes b) ''region'' of
        Inl e \<Rightarrow> (Inl e, w1)
      | Inr region \<Rightarrow>
     (let w2 = log (Write_File (tmp_name os) (rclone_config access_key secret_key (or_empty region))) w1 in
      case getitem (backup_attributes b) ''bucket'' of
        Inl e \<Rightarrow> (Inl e, w2)
      | Inr bucket \<Rightarrow>
     (let args = rclone_args os b bucket;
          w3 = log (Popen args) w2 in
      case popen os args of
        Inl e \<Rightarrow> (Inl e, w3)
      | Inr p \<Rightarrow>
     (let w4 = w3\<lparr>progress := snd (check_progress (take (scanner_turns p) (proc_stderr p))
                                        (progress w3))\<rparr>;
          w5 = log Communicate w4
      in case communicate p of
           Inl e \<Rightarrow> (Inl e, w5)
         | Inr stderr \<Rightarrow>
             if returncode p \<noteq> 0
             then (Inl (ValueError (''rclone failed: '' @ py_format (PyBytes stderr))), w5)
             else (Inr True, w5)))))))"

text \<open>
  \<open>with tempfile.NamedTemporaryFile() as f\<close>: the file is created with the mode
  \<open>mkstemp\<close> gives it, which is \<open>0o600\<close>, and is deleted when the block is left, by
  \<open>return\<close> or by an exception.
\<close>

definition BackupS3Service_sync ::
  "system \<Rightarrow> backup \<Rightarrow> credential \<Rightarrow> 's world \<Rightarrow> (error + bool) \<times> 's world" where
  "BackupS3Service_sync os b credential w =
     (case sync_with_tempfile os b credential (log (Tempfile_Create (tmp_name os) mode_0o600) w) of
        (r, w') \<Rightarrow> (r, log (Tempfile_Delete (tmp_name os)) w'))"

section \<open>BackupService.sync\<close>

definition BackupService_sync ::
  "system \<Rightarrow> 's middleware \<Rightarrow> int \<Rightarrow> 's world \<Rightarrow> (error + bool) \<times> 's world" where
  "BackupService_sync os mw i w =
     (case query_cloudsync mw i w of
        (None, w1) \<Rightarrow> (Inl (ValueError ''Unknown id''), w1)
      | (Some b, w1) \<Rightarrow>
     (case query_cloudcredentials mw (backup_credential_id b) w1 of
        (None, w2) \<Rightarrow> (Inl (ValueError ''Backup credential not found.''), w2)
      | (Some credential, w2) \<Rightarrow>
          if credential_provider credential = ''AMAZON''
          then BackupS3Service_sync os b credential w2
          else (Inl (NotImplementedError (''Unsupported provider: '' @ credential_provider credential)), w2)))"


section \<open>Notions the properties are stated with\<close>

text \<open>The events a run from \<open>w\<close> to \<open>w'\<close> added to the trace.\<close>

definition performed :: "'s world \<Rightarrow> 's world \<Rightarrow> event list" where
  "performed w w' = drop (length (trace w)) (trace w')"

text \<open>The \<open>upload_part\<close> calls of a trace, in order, and the \<open>Parts\<close> of its completion calls.\<close>

record upload =
  up_PartNumber :: nat
  up_ContentLength :: nat
  up_Body :: bytes
  up_answer :: "error + string"

fun uploads :: "event list \<Rightarrow> upload list" where
  "uploads [] = []"
| "uploads (Upload_Part bucket key n uid len body a # evs) =
     \<lparr>up_PartNumber = n, up_ContentLength = len, up_Body = body, up_answer = a\<rparr> # uploads evs"
| "uploads (ev # evs) = uploads evs"

fun completions :: "event list \<Rightarrow> part list list" where
  "completions [] = []"
| "completions (Complete_Multipart_Upload bucket key uid ps a # evs) = ps # completions evs"
| "completions (ev # evs) = completions evs"

text \<open>The sequence of reads of \<open>CHUNK_SIZE\<close> bytes that exhausts a stream.\<close>

function chunks :: "bytes \<Rightarrow> bytes list" where
  "chunks f = (if take CHUNK_SIZE f = [] then [] else take CHUNK_SIZE f # chunks (drop CHUNK_SIZE f))"
  by pat_completeness auto
termination
  by (relation "measure length") (auto simp: CHUNK_SIZE_def)

declare chunks.simps [simp del]

text \<open>
  The events of uploading the chunks \<open>cs\<close> as parts \<open>idx\<close>, \<open>idx + 1\<close>, ... with the
  answers \<open>es\<close>, and the part list built from these answers.
\<close>

fun upload_events :: "pyval \<Rightarrow> string \<Rightarrow> string \<Rightarrow> nat \<Rightarrow> bytes list \<Rightarrow> string list \<Rightarrow> event list" where
  "upload_events bucket key uid idx (c # cs) (e # es) =
     Upload_Part bucket key idx uid CHUNK_SIZE c (Inr e) # upload_events bucket key uid (Suc idx) cs es"
| "upload_events bucket key uid idx cs es = []"

fun parts_from :: "nat \<Rightarrow> string list \<Rightarrow> part list" where
  "parts_from idx [] = []"
| "parts_from idx (e # es) = \<lparr>ETag = e, PartNumber = idx\<rparr> # parts_from (Suc idx) es"

text \<open>
  The temporary file as the events of a trace leave it: absent, or present with a mode
  and a content. Bits 5 and 2 of a mode are the read permission of the group and of
  everyone else.
\<close>

fun fs_step :: "string \<Rightarrow> (nat \<times> string) option \<Rightarrow> event \<Rightarrow> (nat \<times> string) option" where
  "fs_step name st (Tempfile_Create n m) = (if n = name then Some (m, []) else st)"
| "fs_step name st (Chmod n m) =
     (if n = name then (case st of None \<Rightarrow> None | Some (m0, c) \<Rightarrow> Some (m, c)) else st)"
| "fs_step name st (Write_File n s) =
     (if n = name then (case st of None \<Rightarrow> None | Some (m, c) \<Rightarrow> Some (m, c @ s)) else st)"
| "fs_step name st (Tempfile_Delete n) = (if n = name then None else st)"
| "fs_step name st ev = st"

definition file_after :: "string \<Rightarrow> event list \<Rightarrow> (nat \<times> string) option" where
  "file_after name evs = foldl (fs_step name) None evs"

definition group_readable :: "nat \<Rightarrow> bool" where
  "group_readable m = ((m div 32) mod 2 = 1)"

definition world_readable :: "nat \<Rightarrow> bool" where
  "world_readable m = ((m div 4) mod 2 = 1)"

fun owner_only :: "(nat \<times> string) option \<Rightarrow> bool" where
  "owner_only None = True"
| "owner_only (Some (m, c)) = (m = mode_0o600 \<and> \<not> group_readable m \<and> \<not> world_readable m)"

text \<open>
  The number of bytes at the end of a body that wait in the buffer of the writer when the
  loop of \<open>get\<close> ends: the last chunk, when it is no larger than the buffer.
\<close>

definition unflushed :: "bytes \<Rightarrow> nat" where
  "unflushed body =
     (if length body mod CHUNK_SIZE \<le> DEFAULT_BUFFER_SIZE then length body mod CHUNK_SIZE else 0)"

text \<open>The file stays restricted to its owner at \<open>st\<close> and after each further event.\<close>

fun safe_from :: "string \<Rightarrow> (nat \<times> string) option \<Rightarrow> event list \<Rightarrow> bool" where
  "safe_from name st [] = owner_only st"
| "safe_from name st (ev # evs) = (owner_only st \<and> safe_from name (fs_step name st ev) evs)"

section \<open>An object store in memory\<close>

text \<open>
  Modelled from the spec: the object store that the client of \<open>boto3\<close> talks to, which
  is outside the module. The spec's capability surface (section 6) and section 4.4 say
  of it: a multipart session is opened for a bucket and a key; a part is uploaded to the
  session under its number and answered with an integrity tag; completion takes the
  ordered list of numbers and tags and is rejected when the list is out of order or has
  a gap; \<open>get-object\<close> yields the body stored under a bucket and a key. The tag of a
  part is a function \<open>h\<close> of its body. The store keeps the body it is handed; the spec
  gives the declared content length no effect, and neither does this store.
\<close>

record mem_upload =
  mu_bucket :: pyval
  mu_key :: string
  mu_parts :: "nat \<rightharpoonup> bytes"

record mem_store =
  sessions :: "string \<rightharpoonup> mem_upload"
  objects :: "pyval \<times> string \<rightharpoonup> bytes"
  next_id :: nat

text \<open>Modelled from the spec: the opaque id of a session, fresh for each session opened.\<close>

definition mem_uid :: "nat \<Rightarrow> string" where
  "mem_uid n = replicate (Suc n) (CHR ''u'')"

text \<open>Modelled from the spec: \<open>create-multipart-upload\<close> opens a session with no parts.\<close>

definition mem_create ::
  "s3_client \<Rightarrow> pyval \<Rightarrow> string \<Rightarrow> mem_store \<Rightarrow> (error + string) \<times> mem_store" where
  "mem_create cl bucket key s =
     (Inr (mem_uid (next_id s)),
      s\<lparr>sessions := (sessions s)(mem_uid (next_id s) \<mapsto>
                        \<lparr>mu_bucket = bucket, mu_key = key, mu_parts = Map.empty\<rparr>),
        next_id := Suc (next_id s)\<rparr>)"

text \<open>
  Modelled from the spec: \<open>upload-part\<close> stores the body under the part number in an open
  session of that bucket and key, and answers with the tag of the body.
\<close>

definition mem_upload_part ::
  "(bytes \<Rightarrow> string) \<Rightarrow> s3_client \<Rightarrow> pyval \<Rightarrow> string \<Rightarrow> nat \<Rightarrow> string \<Rightarrow> nat \<Rightarrow> bytes \<Rightarrow> mem_store
     \<Rightarrow> (error + string) \<times> mem_store" where
  "mem_upload_part h cl bucket key n uid len body s =
     (case sessions s uid of
        None \<Rightarrow> (Inl (ClientError ''NoSuchUpload''), s)
      | Some u \<Rightarrow>
          if mu_bucket u = bucket \<and> mu_key u = key
          then (Inr (h body), s\<lparr>sessions := (sessions s)(uid \<mapsto> u\<lparr>mu_parts := (mu_parts u)(n \<mapsto> body)\<rparr>)\<rparr>)
          else (Inl (ClientError ''NoSuchUpload''), s))"

text \<open>
  Modelled from the spec: the listed parts put together in the listed order, each with the
  tag its upload was answered with.
\<close>

fun assemble :: "(bytes \<Rightarrow> string) \<Rightarrow> (nat \<rightharpoonup> bytes) \<Rightarrow> part list \<Rightarrow> bytes option" where
  "assemble h m [] = Some []"
| "assemble h m (p # ps) =
     (case m (PartNumber p) of
        None \<Rightarrow> None
      | Some body \<Rightarrow>
          if ETag p = h body
          then (case assemble h m ps of None \<Rightarrow> None | Some rest \<Rightarrow> Some (body @ rest))
          else None)"

text \<open>
  Modelled from the spec: \<open>complete-multipart-upload\<close> takes the part numbers
  \<open>1, ..., n\<close> in ascending order without a gap, stores the assembled object and closes
  the session.
\<close>

definition mem_complete ::
  "(bytes \<Rightarrow> string) \<Rightarrow> s3_client \<Rightarrow> pyval \<Rightarrow> string \<Rightarrow> string \<Rightarrow> part list \<Rightarrow> mem_store
     \<Rightarrow> (error + unit) \<times> mem_store" where
  "mem_complete h cl bucket key uid ps s =
     (case sessions s uid of
        None \<Rightarrow> (Inl (ClientError ''NoSuchUpload''), s)
      | Some u \<Rightarrow>
          if mu_bucket u = bucket \<and> mu_key u = key \<and> map PartNumber ps = [1..<Suc (length ps)]
          then (case assemble h (mu_parts u) ps of
                  None \<Rightarrow> (Inl (ClientError ''InvalidPart''), s)
                | Some body \<Rightarrow>
                    (Inr (), s\<lparr>sessions := (sessions s)(uid := None),
                               objects := (objects s)((bucket, key) \<mapsto> body)\<rparr>))
          else (Inl (ClientError ''InvalidPartOrder''), s))"

text \<open>Modelled from the spec: \<open>get-object\<close> yields the body stored under the bucket and key.\<close>

definition mem_get_object ::
  "s3_client \<Rightarrow> pyval \<Rightarrow> string \<Rightarrow> mem_store \<Rightarrow> (error + bytes) \<times> mem_store" where
  "mem_get_object cl bucket key s =
     (case objects s (bucket, key) of
        None \<Rightarrow> (Inl (ClientError ''NoSuchKey''), s)
      | Some body \<Rightarrow> (Inr body, s))"

text \<open>Modelled from the spec: the four operations as the client record the module calls.\<close>

definition mem_s3 :: "(bytes \<Rightarrow> string) \<Rightarrow> mem_store s3" where
  "mem_s3 h =
     \<lparr>create_multipart_upload = mem_create,
      upload_part = mem_upload_part h,
      complete_multipart_upload = mem_complete h,
      get_object = mem_get_object\<rparr>"

text \<open>The parts a session holds once the chunks \<open>cs\<close> are stored as parts \<open>idx\<close>, \<open>idx + 1\<close>, ...\<close>

fun fill :: "nat \<Rightarrow> bytes list \<Rightarrow> (nat \<rightharpoonup> bytes) \<Rightarrow> (nat \<rightharpoonup> bytes)" where
  "fill idx [] m = m"
| "fill idx (c # cs) m = fill (Suc idx) cs (m(idx \<mapsto> c))"

section \<open>A task, a credential and two stores to run the module on\<close>

definition example_backup :: backup where
  "example_backup =
     \<lparr>backup_id = 1, backup_path = ''/mnt/tank/data'', backup_credential_id = 1,
      backup_attributes = [''bucket'' \<mapsto> PyStr ''vault'', ''folder'' \<mapsto> PyStr ''nightly'',
                           ''region'' \<mapsto> PyNone]\<rparr>"

definition example_credential :: credential where
  "example_credential =
     \<lparr>credential_id = 1, credential_provider = ''AMAZON'',
      credential_attributes = [''access_key'' \<mapsto> PyStr ''AK'', ''secret_key'' \<mapsto> PyStr ''SK'']\<rparr>"

definition example_middleware :: "mem_store s3 \<Rightarrow> mem_store middleware" where
  "example_middleware store =
     \<lparr>tasks_cloudsync = [1 \<mapsto> example_backup],
      system_cloudcredentials = [1 \<mapsto> example_credential],
      boto3_s3 = store\<rparr>"

definition example_world :: "mem_store world" where
  "example_world =
     \<lparr>remote = \<lparr>sessions = Map.empty, objects = Map.empty, next_id = 0\<rparr>,
      trace = [], progress = []\<rparr>"

text \<open>A store whose \<open>upload_part\<close> raises for part \<open>k\<close>.\<close>

definition broken_s3 :: "nat \<Rightarrow> mem_store s3" where
  "broken_s3 k =
     (mem_s3 (\<lambda>body. body))
       \<lparr>upload_part := (\<lambda>cl bucket key n uid len body s.
            if n = k then (Inl (ClientError ''RequestTimeout''), s)
            else mem_upload_part (\<lambda>body. body) cl bucket key n uid len body s)\<rparr>"

text \<open>
  An operating system whose \<open>rclone\<close> prints a progress line and a last line and exits
  with the given code, in a run where the scanner takes the first line and
  \<open>communicate\<close> returns; and the same with a \<open>communicate\<close> that raises.
\<close>

definition example_system :: "int \<Rightarrow> system" where
  "example_system code =
     \<lparr>tmp_name = ''/tmp/tmpk3v9x2'',
      popen = (\<lambda>args. Inr \<lparr>proc_stderr = [''Transferred: 42%'' @ [CHR 0x0A],
                                           ''Failed to sync: access denied'' @ [CHR 0x0A]],
                            returncode = code,
                            scanner_turns = 1,
                            communicate_error = None\<rparr>)\<rparr>"

definition clashing_system :: "int \<Rightarrow> system" where
  "clashing_system code =
     \<lparr>tmp_name = ''/tmp/tmpk3v9x2'',
      popen = (\<lambda>args. Inr \<lparr>proc_stderr = [''Transferred: 42%'' @ [CHR 0x0A]],
                            returncode = code,
                            scanner_turns = 0,
                            communicate_error = Some (RuntimeError ''reentrant call'')\<rparr>)\<rparr>"

section \<open>The chunk sequence\<close>

lemma CHUNK_SIZE_pos: "0 < CHUNK_SIZE"
  by (simp add: CHUNK_SIZE_def)

lemma chunks_Nil: "chunks [] = []"
  by (simp add: chunks.simps)

lemma chunks_nonempty: "f \<noteq> [] \<Longrightarrow> chunks f = take CHUNK_SIZE f # chunks (drop CHUNK_SIZE f)"
  by (subst chunks.simps) (simp add: CHUNK_SIZE_pos)

lemma chunks_eq_Nil: "chunks f = [] \<longleftrightarrow> f = []"
  by (cases "f = []") (simp_all add: chunks_Nil chunks_nonempty)

lemma concat_chunks: "concat (chunks f) = f"
proof (induction f rule: chunks.induct)
  case (1 f)
  show ?case
  proof (cases "f = []")
    case True
    then show ?thesis by (simp add: chunks_Nil)
  next
    case False
    then have "take CHUNK_SIZE f \<noteq> []" by (simp add: CHUNK_SIZE_pos)
    from 1[OF this] False show ?thesis by (simp add: chunks_nonempty)
  qed
qed

lemma ceil_step:
  fixes n c :: nat
  assumes "0 < c" "0 < n"
  shows "(n + c - 1) div c = Suc ((n - c + c - 1) div c)"
proof -
  have e: "n + c - 1 = (n - 1) + c" using assms by simp
  have "(m + c) div c = Suc (m div c)" for m using assms by (simp add: div_add_self2)
  then have lhs: "(n + c - 1) div c = Suc ((n - 1) div c)" unfolding e .
  show ?thesis
  proof (cases "c \<le> n")
    case True
    then have "n - c + c - 1 = n - 1" by simp
    with lhs show ?thesis by simp
  next
    case False
    then have "n - c + c - 1 = c - 1" and "n - 1 < c" by simp_all
    moreover have "c - 1 < c" using assms by simp
    ultimately show ?thesis using lhs by simp
  qed
qed

lemma length_chunks: "length (chunks f) = (length f + CHUNK_SIZE - 1) div CHUNK_SIZE"
proof (induction f rule: chunks.induct)
  case (1 f)
  show ?case
  proof (cases "f = []")
    case True
    then show ?thesis using CHUNK_SIZE_pos by (simp add: chunks_Nil)
  next
    case False
    then have "take CHUNK_SIZE f \<noteq> []" by (simp add: CHUNK_SIZE_pos)
    from 1[OF this] False show ?thesis
      using ceil_step[OF CHUNK_SIZE_pos, of "length f"] by (simp add: chunks_nonempty)
  qed
qed

lemma chunks_butlast: "c \<in> set (butlast (chunks f)) \<Longrightarrow> length c = CHUNK_SIZE"
proof (induction f rule: chunks.induct)
  case (1 f)
  show ?case
  proof (cases "f = []")
    case True
    with 1(2) show ?thesis by (simp add: chunks_Nil)
  next
    case False
    then have ne: "take CHUNK_SIZE f \<noteq> []" by (simp add: CHUNK_SIZE_pos)
    have cf: "chunks f = take CHUNK_SIZE f # chunks (drop CHUNK_SIZE f)"
      using False by (rule chunks_nonempty)
    show ?thesis
    proof (cases "drop CHUNK_SIZE f = []")
      case True
      then have "chunks f = [take CHUNK_SIZE f]" using cf by (simp add: chunks_Nil)
      with 1(2) show ?thesis by simp
    next
      case d: False
      then have "CHUNK_SIZE < length f" by simp
      then have len: "length (take CHUNK_SIZE f) = CHUNK_SIZE" by simp
      from d have "chunks (drop CHUNK_SIZE f) \<noteq> []" by (simp only: chunks_eq_Nil not_False_eq_True)
      then have "butlast (chunks f) = take CHUNK_SIZE f # butlast (chunks (drop CHUNK_SIZE f))"
        unfolding cf by simp
      with 1(2) have "c = take CHUNK_SIZE f \<or> c \<in> set (butlast (chunks (drop CHUNK_SIZE f)))"
        by simp
      then show ?thesis using len 1(1)[OF ne] by blast
    qed
  qed
qed

lemma chunks_last:
  "f \<noteq> [] \<Longrightarrow> length (last (chunks f)) =
     (if length f mod CHUNK_SIZE = 0 then CHUNK_SIZE else length f mod CHUNK_SIZE)"
proof (induction f rule: chunks.induct)
  case (1 f)
  then have ne: "take CHUNK_SIZE f \<noteq> []" by (simp add: CHUNK_SIZE_pos)
  have cf: "chunks f = take CHUNK_SIZE f # chunks (drop CHUNK_SIZE f)"
    using 1(2) by (rule chunks_nonempty)
  show ?case
  proof (cases "drop CHUNK_SIZE f = []")
    case True
    then have le: "length f \<le> CHUNK_SIZE" by simp
    have "chunks f = [f]" using cf True le by (simp add: chunks_Nil)
    moreover have "0 < length f" using 1(2) by simp
    ultimately show ?thesis using le by (cases "length f = CHUNK_SIZE") simp_all
  next
    case False
    then have lt: "CHUNK_SIZE < length f" by simp
    then have m: "(length f - CHUNK_SIZE) mod CHUNK_SIZE = length f mod CHUNK_SIZE"
      by (simp add: le_mod_geq)
    from False have "chunks (drop CHUNK_SIZE f) \<noteq> []" by (simp only: chunks_eq_Nil not_False_eq_True)
    then have "last (chunks f) = last (chunks (drop CHUNK_SIZE f))" unfolding cf by simp
    with 1(1)[OF ne False] m show ?thesis by simp
  qed
qed

lemma chunk_nonempty: "c \<in> set (chunks f) \<Longrightarrow> c \<noteq> [] \<and> length c \<le> CHUNK_SIZE"
proof (induction f rule: chunks.induct)
  case (1 f)
  show ?case
  proof (cases "f = []")
    case True
    with 1(2) show ?thesis by (simp add: chunks_Nil)
  next
    case False
    then have ne: "take CHUNK_SIZE f \<noteq> []" by (simp add: CHUNK_SIZE_pos)
    have cf: "chunks f = take CHUNK_SIZE f # chunks (drop CHUNK_SIZE f)"
      using False by (rule chunks_nonempty)
    from 1(2) have "c = take CHUNK_SIZE f \<or> c \<in> set (chunks (drop CHUNK_SIZE f))"
      unfolding cf by simp
    then show ?thesis using ne 1(1)[OF ne] by auto
  qed
qed

section \<open>The trace of the upload loop\<close>

lemma call_upload_part_trace:
  "call_upload_part c cl bucket key n uid len body w = (r, w') \<Longrightarrow>
     trace w' = trace w @ [Upload_Part bucket key n uid len body r]"
  by (auto simp: call_upload_part_def log_def split: prod.splits)

lemma put_loop_run:
  "put_loop c cl bucket key uid f parts idx w = (r, w') \<Longrightarrow>
     \<exists>es. trace w' = trace w @ upload_events bucket key uid idx (take (length es) (chunks f)) es @
            (case r of
               Inl e \<Rightarrow> [Upload_Part bucket key (idx + length es) uid CHUNK_SIZE (chunks f ! length es) (Inl e)]
             | Inr ps \<Rightarrow> []) \<and>
          (case r of
             Inl e \<Rightarrow> length es < length (chunks f)
           | Inr ps \<Rightarrow> length es = length (chunks f) \<and> ps = parts @ parts_from idx es)"
proof (induction c cl bucket key uid f parts idx w rule: put_loop.induct)
  case (1 c cl bucket key uid f parts idx w)
  show ?case
  proof (cases "f = []")
    case True
    with 1(2) have "r = Inr parts" "w' = w" by (subst (asm) put_loop.simps, simp)+
    then show ?thesis using True by (intro exI[of _ "[]"]) (simp add: chunks_Nil)
  next
    case False
    then have ne: "take CHUNK_SIZE f \<noteq> []" by (simp add: CHUNK_SIZE_pos)
    have cf: "chunks f = take CHUNK_SIZE f # chunks (drop CHUNK_SIZE f)"
      using False by (rule chunks_nonempty)
    obtain a w1 where call: "call_upload_part c cl bucket key idx uid CHUNK_SIZE (take CHUNK_SIZE f) w = (a, w1)"
      by (cases "call_upload_part c cl bucket key idx uid CHUNK_SIZE (take CHUNK_SIZE f) w")
    note tr = call_upload_part_trace[OF call]
    show ?thesis
    proof (cases a)
      case (Inl e)
      with 1(2) call ne have "r = Inl e" "w' = w1" by (subst (asm) put_loop.simps, simp)+
      then show ?thesis using tr Inl
        by (intro exI[of _ "[]"]) (simp add: cf)
    next
      case (Inr etag)
      with 1(2) call ne have rec: "put_loop c cl bucket key uid (drop CHUNK_SIZE f)
               (parts @ [\<lparr>ETag = etag, PartNumber = idx\<rparr>]) (idx + 1) w1 = (r, w')"
        by (subst (asm) put_loop.simps) simp
      from 1(1)[OF ne _ _ rec] call Inr
      obtain es where es: "trace w' = trace w1 @ upload_events bucket key uid (idx + 1) (take (length es) (chunks (drop CHUNK_SIZE f))) es @
            (case r of
               Inl e \<Rightarrow> [Upload_Part bucket key (idx + 1 + length es) uid CHUNK_SIZE (chunks (drop CHUNK_SIZE f) ! length es) (Inl e)]
             | Inr ps \<Rightarrow> [])"
         "(case r of
             Inl e \<Rightarrow> length es < length (chunks (drop CHUNK_SIZE f))
           | Inr ps \<Rightarrow> length es = length (chunks (drop CHUNK_SIZE f)) \<and> ps = (parts @ [\<lparr>ETag = etag, PartNumber = idx\<rparr>]) @ parts_from (idx + 1) es)"
        by auto
      show ?thesis
        using es tr Inr
        by (intro exI[of _ "etag # es"]) (auto simp: cf split: sum.splits)
    qed
  qed
qed

lemma performed_append: "trace w' = trace w @ evs \<Longrightarrow> performed w w' = evs"
  by (simp add: performed_def)

lemma get_client_run:
  "get_client mw i w = (r, w') \<Longrightarrow>
     trace w' = trace w @ [Datastore_Query ''system.cloudcredentials'' i] \<and> remote w' = remote w"
  by (auto simp: get_client_def query_cloudcredentials_def log_def split: option.splits)

lemma call_create_trace:
  "call_create_multipart_upload c cl bucket key w = (r, w') \<Longrightarrow>
     trace w' = trace w @ [Create_Multipart_Upload bucket key r]"
  by (auto simp: call_create_multipart_upload_def log_def split: prod.splits)

lemma call_complete_trace:
  "call_complete_multipart_upload c cl bucket key uid ps w = (r, w') \<Longrightarrow>
     trace w' = trace w @ [Complete_Multipart_Upload bucket key uid ps r]"
  by (auto simp: call_complete_multipart_upload_def log_def split: prod.splits)

lemma put_cases:
  assumes "put mw b filename f w = (r, w')"
  obtains
    (no_session) e where "r = Inl e"
      "performed w w' = [Datastore_Query ''system.cloudcredentials'' (backup_id b)]"
  | (create_failed) bucket key e where "r = Inl e"
      "performed w w' = [Datastore_Query ''system.cloudcredentials'' (backup_id b),
                         Create_Multipart_Upload bucket key (Inl e)]"
  | (upload_failed) bucket key uid es e where "r = Inl e" "length es < length (chunks f)"
      "performed w w' =
         [Datastore_Query ''system.cloudcredentials'' (backup_id b),
          Create_Multipart_Upload bucket key (Inr uid)] @
         upload_events bucket key uid 1 (take (length es) (chunks f)) es @
         [Upload_Part bucket key (1 + length es) uid CHUNK_SIZE (chunks f ! length es) (Inl e)]"
  | (completed) bucket key uid es where "length es = length (chunks f)"
      "performed w w' =
         [Datastore_Query ''system.cloudcredentials'' (backup_id b),
          Create_Multipart_Upload bucket key (Inr uid)] @
         upload_events bucket key uid 1 (chunks f) es @
         [Complete_Multipart_Upload bucket key uid (parts_from 1 es) r]"
proof -
  obtain rc w1 where gc: "get_client mw (backup_id b) w = (rc, w1)"
    by (cases "get_client mw (backup_id b) w")
  note t1 = get_client_run[OF gc, THEN conjunct1]
  show thesis
  proof (cases rc)
    case (Inl e)
    with assms gc have "r = Inl e" "w' = w1" by (simp_all add: put_def)
    with t1 show thesis by (intro no_session[of e]) (simp_all add: performed_append)
  next
    case client: (Inr client)
    show thesis
    proof (cases "remote_key b filename")
      case (Inl e)
      with assms gc client have "r = Inl e" "w' = w1" by (simp_all add: put_def)
      with t1 show thesis by (intro no_session[of e]) (simp_all add: performed_append)
    next
      case key: (Inr key)
      show thesis
      proof (cases "getitem (backup_attributes b) ''bucket''")
        case (Inl e)
        with assms gc client key have "r = Inl e" "w' = w1" by (simp_all add: put_def)
        with t1 show thesis by (intro no_session[of e]) (simp_all add: performed_append)
      next
        case bucket: (Inr bucket)
        obtain ru w2 where cr: "call_create_multipart_upload (boto3_s3 mw) client bucket key w1 = (ru, w2)"
          by (cases "call_create_multipart_upload (boto3_s3 mw) client bucket key w1")
        note t2 = call_create_trace[OF cr]
        show thesis
        proof (cases ru)
          case (Inl e)
          with assms gc client key bucket cr have "r = Inl e" "w' = w2" by (simp_all add: put_def)
          with t1 t2 Inl show thesis
            by (intro create_failed[of e bucket key]) (simp_all add: performed_append)
        next
          case uid: (Inr uid)
          obtain rl w3 where lp: "put_loop (boto3_s3 mw) client bucket key uid f [] 1 w2 = (rl, w3)"
            by (cases "put_loop (boto3_s3 mw) client bucket key uid f [] 1 w2")
          from put_loop_run[OF lp] obtain es where
            t3: "trace w3 = trace w2 @ upload_events bucket key uid 1 (take (length es) (chunks f)) es @
                  (case rl of
                     Inl e \<Rightarrow> [Upload_Part bucket key (1 + length es) uid CHUNK_SIZE (chunks f ! length es) (Inl e)]
                   | Inr ps \<Rightarrow> [])"
            and l3: "(case rl of
                        Inl e \<Rightarrow> length es < length (chunks f)
                      | Inr ps \<Rightarrow> length es = length (chunks f) \<and> ps = [] @ parts_from 1 es)"
            by blast
          show thesis
          proof (cases rl)
            case (Inl e)
            with assms gc client key bucket cr uid lp have "r = Inl e" "w' = w3"
              by (simp_all add: put_def)
            with t1 t2 t3 l3 Inl uid show thesis
              by (intro upload_failed[of e es bucket key uid]) (simp_all add: performed_append)
          next
            case (Inr ps)
            with assms gc client key bucket cr uid lp
            have fin: "call_complete_multipart_upload (boto3_s3 mw) client bucket key uid ps w3 = (r, w')"
              by (simp add: put_def)
            from l3 Inr have le: "length es = length (chunks f)" and ps: "ps = parts_from 1 es" by simp_all
            from call_complete_trace[OF fin] t1 t2 t3 Inr uid le ps show thesis
              by (intro completed[of es bucket key uid]) (simp_all add: performed_append)
          qed
        qed
      qed
    qed
  qed
qed

section \<open>Reading a trace\<close>

lemma uploads_append: "uploads (xs @ ys) = uploads xs @ uploads ys"
  by (induction xs rule: uploads.induct) simp_all

lemma completions_append: "completions (xs @ ys) = completions xs @ completions ys"
  by (induction xs rule: completions.induct) simp_all

lemma upt_from: "[idx..<Suc (idx + n)] = idx # [Suc idx..<Suc (idx + n)]"
  by (simp add: upt_conv_Cons del: upt_Suc)

lemma length_upload_events:
  "length (uploads (upload_events bucket key uid idx cs es)) = min (length cs) (length es)"
  by (induction bucket key uid idx cs es rule: upload_events.induct) simp_all

lemma numbers_upload_events:
  "map up_PartNumber (uploads (upload_events bucket key uid idx cs es)) =
     [idx..<idx + min (length cs) (length es)]"
  by (induction bucket key uid idx cs es rule: upload_events.induct)
     (simp_all add: upt_from del: upt_Suc)

lemma bodies_upload_events:
  "map up_Body (uploads (upload_events bucket key uid idx cs es)) = take (length es) cs"
  by (induction bucket key uid idx cs es rule: upload_events.induct) simp_all

lemma answers_upload_events:
  "map up_answer (uploads (upload_events bucket key uid idx cs es)) = map Inr (take (length cs) es)"
  by (induction bucket key uid idx cs es rule: upload_events.induct) simp_all

lemma declared_upload_events:
  "u \<in> set (uploads (upload_events bucket key uid idx cs es)) \<Longrightarrow> up_ContentLength u = CHUNK_SIZE"
  by (induction bucket key uid idx cs es rule: upload_events.induct) auto

lemma completions_upload_events: "completions (upload_events bucket key uid idx cs es) = []"
  by (induction bucket key uid idx cs es rule: upload_events.induct) simp_all

lemma PartNumber_parts_from: "map PartNumber (parts_from idx es) = [idx..<idx + length es]"
  by (induction es arbitrary: idx) (simp_all add: upt_from del: upt_Suc)

lemma ETag_parts_from: "map ETag (parts_from idx es) = es"
  by (induction es arbitrary: idx) simp_all

section \<open>The store in memory\<close>

lemma fill_below: "k < idx \<Longrightarrow> fill idx cs m k = m k"
  by (induction cs arbitrary: idx m) simp_all

lemma assemble_fill: "assemble h (fill idx cs m) (parts_from idx (map h cs)) = Some (concat cs)"
proof (induction cs arbitrary: idx m)
  case Nil
  show ?case by simp
next
  case (Cons c cs)
  have "fill (Suc idx) cs (m(idx \<mapsto> c)) idx = Some c" by (simp add: fill_below)
  with Cons[of "Suc idx" "m(idx \<mapsto> c)"] show ?case by (simp del: fun_upd_apply)
qed

lemma length_parts_from: "length (parts_from idx es) = length es"
  by (induction es arbitrary: idx) simp_all

lemma DEFAULT_BUFFER_SIZE_less: "DEFAULT_BUFFER_SIZE < CHUNK_SIZE"
  by (simp add: DEFAULT_BUFFER_SIZE_def CHUNK_SIZE_def)

lemma get_loop_Nil: "get_loop [] st = st"
  by (subst get_loop.simps) simp

lemma get_loop_step:
  assumes "body \<noteq> []"
  shows "get_loop body st = get_loop (drop CHUNK_SIZE body) (fg_write (take CHUNK_SIZE body) st)"
proof -
  from assms have "take CHUNK_SIZE body \<noteq> []" using CHUNK_SIZE_pos by simp
  then show ?thesis by (subst get_loop.simps) simp
qed

lemma get_loop_written:
  "get_loop body (out, []) =
     (out @ take (length body - unflushed body) body, drop (length body - unflushed body) body)"
proof (induction body arbitrary: out rule: chunks.induct)
  case (1 body)
  show ?case
  proof (cases "body = []")
    case True
    then show ?thesis by (simp add: get_loop_Nil)
  next
    case False
    then have ne: "take CHUNK_SIZE body \<noteq> []" by (simp add: CHUNK_SIZE_pos)
    note step = get_loop_step[OF False, of "(out, [])"]
    show ?thesis
    proof (cases "CHUNK_SIZE \<le> length body")
      case True
      then have len: "length (take CHUNK_SIZE body) = CHUNK_SIZE" by simp
      have w: "fg_write (take CHUNK_SIZE body) (out, []) = (out @ take CHUNK_SIZE body, [])"
        using len DEFAULT_BUFFER_SIZE_less by (simp add: fg_write_def)
      have m: "length (drop CHUNK_SIZE body) mod CHUNK_SIZE = length body mod CHUNK_SIZE"
        using True by (simp add: le_mod_geq)
      then have u: "unflushed (drop CHUNK_SIZE body) = unflushed body"
        by (simp only: unflushed_def)
      have ule: "unflushed body \<le> length body - CHUNK_SIZE"
      proof -
        have "unflushed body \<le> length (drop CHUNK_SIZE body) mod CHUNK_SIZE"
          unfolding m by (simp add: unflushed_def)
        also have "\<dots> \<le> length (drop CHUNK_SIZE body)" by (rule mod_less_eq_dividend)
        finally show ?thesis by simp
      qed
      define k where "k = length body - CHUNK_SIZE - unflushed body"
      have k1: "length (drop CHUNK_SIZE body) - unflushed (drop CHUNK_SIZE body) = k"
        unfolding u k_def by simp
      have k2: "length body - unflushed body = CHUNK_SIZE + k"
        unfolding k_def using True ule by simp
      have "get_loop body (out, []) = get_loop (drop CHUNK_SIZE body) (out @ take CHUNK_SIZE body, [])"
        unfolding step w ..
      also have "\<dots> = ((out @ take CHUNK_SIZE body) @ take k (drop CHUNK_SIZE body),
                          drop k (drop CHUNK_SIZE body))"
        unfolding 1[OF ne, of "out @ take CHUNK_SIZE body"] k1 ..
      also have "\<dots> = (out @ take (CHUNK_SIZE + k) body, drop (CHUNK_SIZE + k) body)"
        by (simp add: take_add add.commute)
      finally show ?thesis unfolding k2 .
    next
      case short: False
      then have whole: "take CHUNK_SIZE body = body" "drop CHUNK_SIZE body = []" by simp_all
      have md: "length body mod CHUNK_SIZE = length body" using short by simp
      show ?thesis
      proof (cases "length body \<le> DEFAULT_BUFFER_SIZE")
        case True
        then have "fg_write body (out, []) = (out, body)" by (simp add: fg_write_def)
        moreover have "unflushed body = length body" using True md by (simp add: unflushed_def)
        ultimately show ?thesis unfolding step whole by (simp add: get_loop_Nil)
      next
        case False
        then have "fg_write body (out, []) = (out @ body, [])" by (simp add: fg_write_def)
        moreover have "unflushed body = 0" using False md by (simp add: unflushed_def)
        ultimately show ?thesis unfolding step whole by (simp add: get_loop_Nil)
      qed
    qed
  qed
qed

lemma mem_upload_part_run:
  assumes "sessions (remote w) uid = Some u" "mu_bucket u = bucket" "mu_key u = key"
  shows "call_upload_part (mem_s3 h) cl bucket key n uid len body w =
           (Inr (h body),
            log (Upload_Part bucket key n uid len body (Inr (h body)))
              (w\<lparr>remote := (remote w)\<lparr>sessions := (sessions (remote w))
                    (uid \<mapsto> u\<lparr>mu_parts := (mu_parts u)(n \<mapsto> body)\<rparr>)\<rparr>\<rparr>))"
  using assms by (simp add: call_upload_part_def mem_s3_def mem_upload_part_def)

lemma mem_put_loop:
  assumes "sessions (remote w) uid = Some u" "mu_bucket u = bucket" "mu_key u = key"
  shows "\<exists>w'. put_loop (mem_s3 h) cl bucket key uid f parts idx w =
                 (Inr (parts @ parts_from idx (map h (chunks f))), w') \<and>
              sessions (remote w') uid = Some (u\<lparr>mu_parts := fill idx (chunks f) (mu_parts u)\<rparr>) \<and>
              objects (remote w') = objects (remote w)"
  using assms
proof (induction f arbitrary: parts idx w u rule: chunks.induct)
  case (1 f)
  show ?case
  proof (cases "f = []")
    case True
    have "put_loop (mem_s3 h) cl bucket key uid f parts idx w = (Inr parts, w)"
      using True by (subst put_loop.simps) simp
    with True 1(2) show ?thesis by (simp add: chunks_Nil)
  next
    case False
    then have ne: "take CHUNK_SIZE f \<noteq> []" by (simp add: CHUNK_SIZE_pos)
    have cf: "chunks f = take CHUNK_SIZE f # chunks (drop CHUNK_SIZE f)"
      using False by (rule chunks_nonempty)
    let ?c = "take CHUNK_SIZE f"
    let ?u = "u\<lparr>mu_parts := (mu_parts u)(idx \<mapsto> ?c)\<rparr>"
    let ?w1 = "log (Upload_Part bucket key idx uid CHUNK_SIZE ?c (Inr (h ?c)))
              (w\<lparr>remote := (remote w)\<lparr>sessions := (sessions (remote w))(uid \<mapsto> ?u)\<rparr>\<rparr>)"
    have call: "call_upload_part (mem_s3 h) cl bucket key idx uid CHUNK_SIZE ?c w = (Inr (h ?c), ?w1)"
      by (rule mem_upload_part_run[OF 1(2,3,4)])
    have step: "put_loop (mem_s3 h) cl bucket key uid f parts idx w =
        put_loop (mem_s3 h) cl bucket key uid (drop CHUNK_SIZE f)
          (parts @ [\<lparr>ETag = h ?c, PartNumber = idx\<rparr>]) (idx + 1) ?w1"
      using ne by (subst put_loop.simps) (simp add: call)
    have s1: "sessions (remote ?w1) uid = Some ?u" by (simp add: log_def)
    have b1: "mu_bucket ?u = bucket" "mu_key ?u = key" using 1(3,4) by simp_all
    from 1(1)[OF ne s1 b1, of "parts @ [\<lparr>ETag = h ?c, PartNumber = idx\<rparr>]" "idx + 1"]
    obtain w' where r: "put_loop (mem_s3 h) cl bucket key uid (drop CHUNK_SIZE f)
          (parts @ [\<lparr>ETag = h ?c, PartNumber = idx\<rparr>]) (idx + 1) ?w1 =
          (Inr ((parts @ [\<lparr>ETag = h ?c, PartNumber = idx\<rparr>]) @
                parts_from (idx + 1) (map h (chunks (drop CHUNK_SIZE f)))), w')"
      and s: "sessions (remote w') uid =
          Some (?u\<lparr>mu_parts := fill (idx + 1) (chunks (drop CHUNK_SIZE f)) (mu_parts ?u)\<rparr>)"
      and o: "objects (remote w') = objects (remote ?w1)"
      by blast
    have o1: "objects (remote ?w1) = objects (remote w)" by (simp add: log_def)
    show ?thesis
      using step r s o o1 by (intro exI[of _ w']) (simp add: cf)
  qed
qed

lemma put_mem:
  assumes "boto3_s3 mw = mem_s3 h"
    and "system_cloudcredentials mw (backup_id b) = Some c"
    and "remote_key b filename = Inr key"
    and "getitem (backup_attributes b) ''bucket'' = Inr bucket"
  shows "\<exists>w'. put mw b filename f w = (Inr (), w') \<and>
              objects (remote w') (bucket, key) = Some f \<and>
              (\<exists>uid evs. performed w w' =
                 Datastore_Query ''system.cloudcredentials'' (backup_id b) #
                 Create_Multipart_Upload bucket key (Inr uid) # evs)"
proof -
  obtain client w1 where gc: "get_client mw (backup_id b) w = (Inr client, w1)"
    using assms(2) by (simp add: get_client_def query_cloudcredentials_def)
  let ?uid = "mem_uid (next_id (remote w1))"
  let ?u = "\<lparr>mu_bucket = bucket, mu_key = key, mu_parts = Map.empty\<rparr>"
  obtain w2 where cr: "call_create_multipart_upload (mem_s3 h) client bucket key w1 = (Inr ?uid, w2)"
    and s2: "sessions (remote w2) ?uid = Some ?u"
    by (simp add: call_create_multipart_upload_def mem_s3_def mem_create_def log_def)
  from mem_put_loop[OF s2, of bucket key h client f "[]" 1]
  obtain w3 where lp: "put_loop (mem_s3 h) client bucket key ?uid f [] 1 w2 =
        (Inr (parts_from 1 (map h (chunks f))), w3)"
    and s3: "sessions (remote w3) ?uid = Some (?u\<lparr>mu_parts := fill 1 (chunks f) Map.empty\<rparr>)"
    by auto
  let ?ps = "parts_from 1 (map h (chunks f))"
  have pn: "map PartNumber ?ps = [1..<Suc (length ?ps)]"
    by (simp add: PartNumber_parts_from length_parts_from)
  have asm: "assemble h (fill 1 (chunks f) Map.empty) ?ps = Some f"
    by (simp add: assemble_fill concat_chunks)
  obtain w4 where fin: "call_complete_multipart_upload (mem_s3 h) client bucket key ?uid ?ps w3 = (Inr (), w4)"
    and o4: "objects (remote w4) (bucket, key) = Some f"
    using s3 pn asm
    by (simp add: call_complete_multipart_upload_def mem_s3_def mem_complete_def log_def)
  have p: "put mw b filename f w = (Inr (), w4)"
    using gc assms cr lp fin by (simp add: put_def del: One_nat_def)
  from put_loop_run[OF lp] obtain evs where t3: "trace w3 = trace w2 @ evs" by auto
  have "trace w4 = trace w @ Datastore_Query ''system.cloudcredentials'' (backup_id b) #
      Create_Multipart_Upload bucket key (Inr ?uid) #
      (evs @ [Complete_Multipart_Upload bucket key ?uid ?ps (Inr ())])"
    using get_client_run[OF gc] call_create_trace[OF cr] t3 call_complete_trace[OF fin] by simp
  then have "performed w w4 = Datastore_Query ''system.cloudcredentials'' (backup_id b) #
      Create_Multipart_Upload bucket key (Inr ?uid) #
      (evs @ [Complete_Multipart_Upload bucket key ?uid ?ps (Inr ())])"
    by (rule performed_append)
  with p o4 show ?thesis by blast
qed

lemma get_mem:
  assumes "boto3_s3 mw = mem_s3 h"
    and "system_cloudcredentials mw (backup_id b) = Some c"
    and "remote_key b filename = Inr key"
    and "getitem (backup_attributes b) ''bucket'' = Inr bucket"
    and "objects (remote w) (bucket, key) = Some body"
  shows "\<exists>w'. get mw b filename w =
                 (Inr (), take (length body - unflushed body) body, w') \<and>
              performed w w' = [Datastore_Query ''system.cloudcredentials'' (backup_id b),
                                Get_Object bucket key (Inr body)]"
proof -
  obtain client w1 where gc: "get_client mw (backup_id b) w = (Inr client, w1)"
    using assms(2) by (simp add: get_client_def query_cloudcredentials_def)
  from get_client_run[OF gc] have t1: "trace w1 = trace w @ [Datastore_Query ''system.cloudcredentials'' (backup_id b)]"
    and r1: "remote w1 = remote w" by simp_all
  have go: "call_get_object (mem_s3 h) client bucket key w1 =
      (Inr body, log (Get_Object bucket key (Inr body)) w1)"
    using assms(5) r1[symmetric] by (simp add: call_get_object_def mem_s3_def mem_get_object_def)
  have "get mw b filename w =
      (Inr (), take (length body - unflushed body) body, log (Get_Object bucket key (Inr body)) w1)"
    using gc assms(1,3,4) go by (simp add: get_def get_loop_written)
  moreover have "performed w (log (Get_Object bucket key (Inr body)) w1) =
      [Datastore_Query ''system.cloudcredentials'' (backup_id b), Get_Object bucket key (Inr body)]"
    by (rule performed_append) (simp add: log_def t1)
  ultimately show ?thesis by blast
qed

section \<open>Runs on the example\<close>

lemma example_get_client: "get_client (example_middleware st) 1 example_world =
   (Inr \<lparr>aws_access_key_id = PyStr ''AK'', aws_secret_access_key = PyStr ''SK''\<rparr>,
    example_world\<lparr>trace := [Datastore_Query ''system.cloudcredentials'' 1]\<rparr>)"
  by (simp add: get_client_def query_cloudcredentials_def log_def example_middleware_def example_world_def example_credential_def dict_get_def)

lemma example_remote_key: "remote_key example_backup ''db.tar'' = Inr ''nightly/db.tar''"
  by (simp add: remote_key_def getitem_def example_backup_def or_empty_def os_path_join_def)

lemma example_bucket: "getitem (backup_attributes example_backup) ''bucket'' = Inr (PyStr ''vault'')"
  by (simp add: getitem_def example_backup_def)

lemma broken_upload_part: "call_upload_part (broken_s3 k) cl bucket key k uid len body w =
   (Inl (ClientError ''RequestTimeout''), log (Upload_Part bucket key k uid len body (Inl (ClientError ''RequestTimeout''))) w)"
  by (simp add: call_upload_part_def broken_s3_def mem_s3_def log_def)

lemma broken_put_loop: "f \<noteq> [] \<Longrightarrow> put_loop (broken_s3 k) cl bucket key uid f parts k w =
   (Inl (ClientError ''RequestTimeout''),
    log (Upload_Part bucket key k uid CHUNK_SIZE (take CHUNK_SIZE f) (Inl (ClientError ''RequestTimeout''))) w)"
  by (subst put_loop.simps) (simp add: broken_upload_part CHUNK_SIZE_pos)

lemma ex_sel: "boto3_s3 (example_middleware st) = st" "backup_id example_backup = 1"
  by (simp_all add: example_middleware_def example_backup_def)

lemma example_put_broken: "put (example_middleware (broken_s3 1)) example_backup ''db.tar'' ''x'' example_world =
  (Inl (ClientError ''RequestTimeout''),
   \<lparr>remote = \<lparr>sessions = [''u'' \<mapsto> \<lparr>mu_bucket = PyStr ''vault'', mu_key = ''nightly/db.tar'', mu_parts = Map.empty\<rparr>],
               objects = Map.empty, next_id = 1\<rparr>,
    trace = [Datastore_Query ''system.cloudcredentials'' 1,
             Create_Multipart_Upload (PyStr ''vault'') ''nightly/db.tar'' (Inr ''u''),
             Upload_Part (PyStr ''vault'') ''nightly/db.tar'' 1 ''u'' CHUNK_SIZE ''x'' (Inl (ClientError ''RequestTimeout''))],
    progress = []\<rparr>)"
proof -
  let ?cl = "\<lparr>aws_access_key_id = PyStr ''AK'', aws_secret_access_key = PyStr ''SK''\<rparr>"
  let ?w1 = "example_world\<lparr>trace := [Datastore_Query ''system.cloudcredentials'' 1]\<rparr>"
  let ?s2 = "\<lparr>sessions = [''u'' \<mapsto> \<lparr>mu_bucket = PyStr ''vault'', mu_key = ''nightly/db.tar'', mu_parts = Map.empty\<rparr>],
               objects = Map.empty, next_id = 1\<rparr>"
  let ?w2 = "\<lparr>remote = ?s2, trace = [Datastore_Query ''system.cloudcredentials'' 1,
             Create_Multipart_Upload (PyStr ''vault'') ''nightly/db.tar'' (Inr ''u'')], progress = []\<rparr>"
  have cr: "call_create_multipart_upload (broken_s3 1) ?cl (PyStr ''vault'') ''nightly/db.tar'' ?w1 = (Inr ''u'', ?w2)"
    by (simp add: call_create_multipart_upload_def broken_s3_def mem_s3_def mem_create_def log_def
          example_world_def mem_uid_def)
  have lp: "put_loop (broken_s3 1) ?cl (PyStr ''vault'') ''nightly/db.tar'' ''u'' ''x'' [] 1 ?w2 =
      (Inl (ClientError ''RequestTimeout''),
       log (Upload_Part (PyStr ''vault'') ''nightly/db.tar'' 1 ''u'' CHUNK_SIZE (take CHUNK_SIZE ''x'') (Inl (ClientError ''RequestTimeout''))) ?w2)"
    by (rule broken_put_loop) simp
  show ?thesis
    unfolding put_def ex_sel example_get_client example_remote_key example_bucket
    by (simp add: cr lp log_def CHUNK_SIZE_def del: One_nat_def)
qed

lemma put_ok_bodies:
  assumes "put mw b filename f w = (Inr (), w')"
  shows "map up_Body (uploads (performed w w')) = chunks f"
  using assms
proof (cases rule: put_cases)
  case (completed bucket key uid es)
  then show ?thesis by (simp add: uploads_append bodies_upload_events)
qed simp_all

lemma example_facts:
  "boto3_s3 (example_middleware st) = st"
  "system_cloudcredentials (example_middleware st) (backup_id example_backup) = Some example_credential"
  "remote_key example_backup ''db.tar'' = Inr ''nightly/db.tar''"
  "getitem (backup_attributes example_backup) ''bucket'' = Inr (PyStr ''vault'')"
  by (simp_all add: example_middleware_def example_backup_def remote_key_def getitem_def
        or_empty_def os_path_join_def)

lemma example_put_empty:
  "put (example_middleware (mem_s3 (\<lambda>body. body))) example_backup ''db.tar'' [] example_world =
  (Inr (),
   \<lparr>remote = \<lparr>sessions = Map.empty,
               objects = [(PyStr ''vault'', ''nightly/db.tar'') \<mapsto> []], next_id = 1\<rparr>,
    trace = [Datastore_Query ''system.cloudcredentials'' 1,
             Create_Multipart_Upload (PyStr ''vault'') ''nightly/db.tar'' (Inr ''u''),
             Complete_Multipart_Upload (PyStr ''vault'') ''nightly/db.tar'' ''u'' [] (Inr ())],
    progress = []\<rparr>)"
proof -
  let ?cl = "\<lparr>aws_access_key_id = PyStr ''AK'', aws_secret_access_key = PyStr ''SK''\<rparr>"
  let ?w1 = "example_world\<lparr>trace := [Datastore_Query ''system.cloudcredentials'' 1]\<rparr>"
  let ?s2 = "\<lparr>sessions = [''u'' \<mapsto> \<lparr>mu_bucket = PyStr ''vault'', mu_key = ''nightly/db.tar'', mu_parts = Map.empty\<rparr>],
               objects = Map.empty, next_id = 1\<rparr>"
  let ?w2 = "\<lparr>remote = ?s2, trace = [Datastore_Query ''system.cloudcredentials'' 1,
             Create_Multipart_Upload (PyStr ''vault'') ''nightly/db.tar'' (Inr ''u'')], progress = []\<rparr>"
  have cr: "call_create_multipart_upload (mem_s3 (\<lambda>body. body)) ?cl (PyStr ''vault'') ''nightly/db.tar'' ?w1 = (Inr ''u'', ?w2)"
    by (simp add: call_create_multipart_upload_def mem_s3_def mem_create_def log_def
          example_world_def mem_uid_def)
  have lp: "put_loop (mem_s3 (\<lambda>body. body)) ?cl (PyStr ''vault'') ''nightly/db.tar'' ''u'' [] [] 1 ?w2 = (Inr [], ?w2)"
    by (subst put_loop.simps) simp
  have fin: "call_complete_multipart_upload (mem_s3 (\<lambda>body. body)) ?cl (PyStr ''vault'') ''nightly/db.tar'' ''u'' [] ?w2 =
      (Inr (), \<lparr>remote = \<lparr>sessions = Map.empty,
               objects = [(PyStr ''vault'', ''nightly/db.tar'') \<mapsto> []], next_id = 1\<rparr>,
    trace = [Datastore_Query ''system.cloudcredentials'' 1,
             Create_Multipart_Upload (PyStr ''vault'') ''nightly/db.tar'' (Inr ''u''),
             Complete_Multipart_Upload (PyStr ''vault'') ''nightly/db.tar'' ''u'' [] (Inr ())],
    progress = []\<rparr>)"
    by (simp add: call_complete_multipart_upload_def mem_s3_def mem_complete_def log_def)
  show ?thesis
    unfolding put_def ex_sel example_get_client example_remote_key example_bucket
    by (simp add: cr lp fin del: One_nat_def)
qed

section \<open>Runs of the two sync methods\<close>

lemma performed_log: "performed w (log ev w) = [ev]"
  by (simp add: performed_def log_def)

lemma performed_log2: "performed w (log ev2 (log ev1 w)) = [ev1, ev2]"
  by (simp add: performed_def log_def)

lemma safe_from_take:
  "safe_from name st evs \<Longrightarrow> owner_only (foldl (fs_step name) st (take k evs))"
proof (induction evs arbitrary: st k)
  case Nil
  then show ?case by simp
next
  case (Cons ev evs)
  then show ?case by (cases k) simp_all
qed

lemma sync_with_tempfile_shape:
  assumes "sync_with_tempfile os b c w = (r, w')"
  shows "\<exists>evs. trace w' = trace w @ Chmod (tmp_name os) mode_0o600 # evs \<and>
           (evs = [] \<or>
            (\<exists>cfg. evs = [Write_File (tmp_name os) cfg] \<or>
              (\<exists>args. evs = [Write_File (tmp_name os) cfg, Popen args] \<or>
                      evs = [Write_File (tmp_name os) cfg, Popen args, Communicate])))"
  using assms
  by (auto simp: sync_with_tempfile_def Let_def log_def split: sum.splits if_splits)

lemma sync_shape:
  assumes "BackupS3Service_sync os b c w = (r, w')"
  shows "\<exists>evs. performed w w' =
           Tempfile_Create (tmp_name os) mode_0o600 # Chmod (tmp_name os) mode_0o600 #
             evs @ [Tempfile_Delete (tmp_name os)] \<and>
           (evs = [] \<or>
            (\<exists>cfg. evs = [Write_File (tmp_name os) cfg] \<or>
              (\<exists>args. evs = [Write_File (tmp_name os) cfg, Popen args] \<or>
                      evs = [Write_File (tmp_name os) cfg, Popen args, Communicate])))"
proof -
  let ?w0 = "log (Tempfile_Create (tmp_name os) mode_0o600) w"
  obtain r1 w1 where body: "sync_with_tempfile os b c ?w0 = (r1, w1)"
    by (cases "sync_with_tempfile os b c ?w0")
  with assms have w': "w' = log (Tempfile_Delete (tmp_name os)) w1"
    by (simp add: BackupS3Service_sync_def)
  from sync_with_tempfile_shape[OF body] obtain evs where
    t: "trace w1 = trace ?w0 @ Chmod (tmp_name os) mode_0o600 # evs"
    and s: "evs = [] \<or>
            (\<exists>cfg. evs = [Write_File (tmp_name os) cfg] \<or>
              (\<exists>args. evs = [Write_File (tmp_name os) cfg, Popen args] \<or>
                      evs = [Write_File (tmp_name os) cfg, Popen args, Communicate]))"
    by blast
  have "trace w' = trace w @ Tempfile_Create (tmp_name os) mode_0o600 # Chmod (tmp_name os) mode_0o600 #
             evs @ [Tempfile_Delete (tmp_name os)]"
    using t w' by (simp add: log_def)
  then have "performed w w' = Tempfile_Create (tmp_name os) mode_0o600 # Chmod (tmp_name os) mode_0o600 #
             evs @ [Tempfile_Delete (tmp_name os)]"
    by (rule performed_append)
  with s show ?thesis by blast
qed

lemma mode_0o600_private: "\<not> group_readable mode_0o600" "\<not> world_readable mode_0o600"
  by (simp_all add: mode_0o600_def group_readable_def world_readable_def)

lemma example_sync_facts:
  "getitem (credential_attributes example_credential) ''access_key'' = Inr (PyStr ''AK'')"
  "getitem (credential_attributes example_credential) ''secret_key'' = Inr (PyStr ''SK'')"
  "getitem (backup_attributes example_backup) ''region'' = Inr PyNone"
  "getitem (backup_attributes example_backup) ''bucket'' = Inr (PyStr ''vault'')"
  "popen (example_system code) args =
     Inr \<lparr>proc_stderr = [''Transferred: 42%'' @ [CHR 0x0A],
                          ''Failed to sync: access denied'' @ [CHR 0x0A]],
          returncode = code, scanner_turns = 1, communicate_error = None\<rparr>"
  "tmp_name (example_system code) = ''/tmp/tmpk3v9x2''"
  by (simp_all add: getitem_def example_credential_def example_backup_def example_system_def)

lemma example_sync_events:
  "performed example_world
     (snd (BackupS3Service_sync (example_system code) example_backup example_credential example_world)) =
   [Tempfile_Create ''/tmp/tmpk3v9x2'' mode_0o600, Chmod ''/tmp/tmpk3v9x2'' mode_0o600,
    Write_File ''/tmp/tmpk3v9x2'' (rclone_config (PyStr ''AK'') (PyStr ''SK'') (PyStr [])),
    Popen (rclone_args (example_system code) example_backup (PyStr ''vault'')),
    Communicate, Tempfile_Delete ''/tmp/tmpk3v9x2'']"
  by (simp add: BackupS3Service_sync_def sync_with_tempfile_def Let_def performed_def log_def
        example_sync_facts or_empty_def example_world_def communicate_def)

lemma sync_communicate_raises:
  assumes "getitem (credential_attributes c) ''access_key'' = Inr ak"
    and "getitem (credential_attributes c) ''secret_key'' = Inr sk"
    and "getitem (backup_attributes b) ''region'' = Inr rg"
    and "getitem (backup_attributes b) ''bucket'' = Inr bk"
    and "popen os (rclone_args os b bk) = Inr p"
    and "communicate p = Inl e"
  shows "fst (BackupS3Service_sync os b c w) = Inl e"
  using assms
  by (simp add: BackupS3Service_sync_def sync_with_tempfile_def Let_def)

lemma example_sync_clash:
  "fst (BackupS3Service_sync (clashing_system 0) example_backup example_credential example_world) =
     Inl (RuntimeError ''reentrant call'')"
proof -
  let ?p = "\<lparr>proc_stderr = [''Transferred: 42%'' @ [CHR 0x0A]], returncode = 0,
            scanner_turns = 0, communicate_error = Some (RuntimeError ''reentrant call'')\<rparr>"
  have p: "popen (clashing_system 0)
             (rclone_args (clashing_system 0) example_backup (PyStr ''vault'')) = Inr ?p"
    by (simp add: clashing_system_def)
  have c: "communicate ?p = Inl (RuntimeError ''reentrant call'')"
    by (simp add: communicate_def)
  show ?thesis
    by (rule sync_communicate_raises[OF example_sync_facts(1) example_sync_facts(2)
          example_sync_facts(3) example_sync_facts(4) p c])
qed

lemma put_get_mem:
  assumes "boto3_s3 mw = mem_s3 h"
    and "system_cloudcredentials mw (backup_id b) = Some c"
    and "remote_key b filename = Inr key"
    and "getitem (backup_attributes b) ''bucket'' = Inr bucket"
  shows "\<exists>w1 w2. put mw b filename f w = (Inr (), w1) \<and>
                  get mw b filename w1 = (Inr (), take (length f - unflushed f) f, w2) \<and>
                  performed w1 w2 = [Datastore_Query ''system.cloudcredentials'' (backup_id b),
                                     Get_Object bucket key (Inr f)]"
proof -
  from put_mem[OF assms, of f w] obtain w1 where
    p: "put mw b filename f w = (Inr (), w1)" and o: "objects (remote w1) (bucket, key) = Some f"
    by blast
  from get_mem[OF assms o] obtain w2 where
    "get mw b filename w1 = (Inr (), take (length f - unflushed f) f, w2)"
    "performed w1 w2 = [Datastore_Query ''system.cloudcredentials'' (backup_id b),
                        Get_Object bucket key (Inr f)]"
    by blast
  with p show ?thesis by blast
qed

section \<open>The claims about put and get\<close>

text \<open>
  Claim C1. A stream of \<open>L\<close> bytes that \<open>put\<close> uploads with the chunk size
  \<open>C\<close> of 5 MiB gives exactly \<open>ceil(L / C)\<close> calls of \<open>upload_part\<close>; every body but
  the last has \<open>C\<close> bytes, the last has \<open>L mod C\<close> bytes (\<open>C\<close> when that is 0), and the
  bodies in order are the stream; the part numbers are \<open>1, ..., n\<close> in this order;
  the one completion call comes last and presents the numbers \<open>1, ..., n\<close> ascending, each
  with the tag its upload returned.
\<close>

theorem put_uploads_every_chunk:
  assumes "put mw b filename f w = (Inr (), w')"
  shows "let ups = uploads (performed w w');
             n = (length f + CHUNK_SIZE - 1) div CHUNK_SIZE
         in CHUNK_SIZE = 5 * 1024 * 1024 \<and>
            length ups = n \<and>
            map up_PartNumber ups = [1..<Suc n] \<and>
            (\<forall>u \<in> set (butlast ups). length (up_Body u) = CHUNK_SIZE) \<and>
            (ups \<noteq> [] \<longrightarrow> length (up_Body (last ups)) =
               (if length f mod CHUNK_SIZE = 0 then CHUNK_SIZE else length f mod CHUNK_SIZE)) \<and>
            concat (map up_Body ups) = f \<and>
            (\<exists>ps. completions (performed w w') = [ps] \<and>
                  map PartNumber ps = [1..<Suc n] \<and>
                  map (\<lambda>p. Inr (ETag p)) ps = map up_answer ups) \<and>
            (\<exists>bucket key uid ps. last (performed w w') = Complete_Multipart_Upload bucket key uid ps (Inr ()))"
  using assms
proof (cases rule: put_cases)
  case (completed bucket key uid es)
  let ?ups = "uploads (performed w w')"
  let ?n = "(length f + CHUNK_SIZE - 1) div CHUNK_SIZE"
  have n: "length (chunks f) = ?n" by (rule length_chunks)
  have len: "length ?ups = ?n"
    using completed n by (simp add: uploads_append length_upload_events)
  have nums: "map up_PartNumber ?ups = [1..<Suc ?n]"
    using completed n by (simp add: uploads_append numbers_upload_events)
  have bodies: "map up_Body ?ups = chunks f"
    using completed by (simp add: uploads_append bodies_upload_events)
  have answers: "map up_answer ?ups = map Inr es"
    using completed by (simp add: uploads_append answers_upload_events)
  have full: "\<forall>u \<in> set (butlast ?ups). length (up_Body u) = CHUNK_SIZE"
  proof
    fix u assume "u \<in> set (butlast ?ups)"
    then have "up_Body u \<in> set (map up_Body (butlast ?ups))" by simp
    then have "up_Body u \<in> set (butlast (chunks f))" by (simp only: map_butlast bodies)
    then show "length (up_Body u) = CHUNK_SIZE" by (rule chunks_butlast)
  qed
  have final: "length (up_Body (last ?ups)) =
      (if length f mod CHUNK_SIZE = 0 then CHUNK_SIZE else length f mod CHUNK_SIZE)"
    if ne: "?ups \<noteq> []"
  proof -
    have "up_Body (last ?ups) = last (map up_Body ?ups)" using ne by (simp add: last_map)
    then have eq: "up_Body (last ?ups) = last (chunks f)" by (simp only: bodies)
    from ne bodies have "chunks f \<noteq> []" by auto
    then have "f \<noteq> []" by (simp add: chunks_eq_Nil)
    from chunks_last[OF this] eq show ?thesis by simp
  qed
  have whole: "concat (map up_Body ?ups) = f"
    by (simp only: bodies concat_chunks)
  have comp: "completions (performed w w') = [parts_from 1 es]"
    using completed by (simp add: completions_append completions_upload_events)
  have pn: "map PartNumber (parts_from 1 es) = [1..<Suc ?n]"
    using completed n by (simp add: PartNumber_parts_from)
  have et: "map (\<lambda>p. Inr (ETag p)) (parts_from 1 es) = map up_answer ?ups"
  proof -
    have "map (\<lambda>p. Inr (ETag p)) (parts_from 1 es) = map Inr (map ETag (parts_from 1 es))" by simp
    then show ?thesis by (simp only: ETag_parts_from answers)
  qed
  have lst: "last (performed w w') = Complete_Multipart_Upload bucket key uid (parts_from 1 es) (Inr ())"
    using completed by simp
  have sz: "CHUNK_SIZE = 5 * 1024 * 1024" by (simp add: CHUNK_SIZE_def)
  show ?thesis
    unfolding Let_def using sz len nums full final whole comp pn et lst by blast
qed simp_all

theorem put_uploads_every_chunk_witness:
  "let F = replicate (2 * CHUNK_SIZE + 1) CHR ''a'';
       run = put (example_middleware (mem_s3 (\<lambda>body. body))) example_backup ''db.tar'' F example_world;
       ups = uploads (performed example_world (snd run))
   in fst run = Inr () \<and> length ups = 3 \<and> map up_PartNumber ups = [1, 2, 3] \<and>
      length (up_Body (ups ! 0)) = CHUNK_SIZE \<and> length (up_Body (ups ! 1)) = CHUNK_SIZE \<and>
      length (up_Body (last ups)) = 1 \<and> concat (map up_Body ups) = F \<and>
      (\<exists>ps. completions (performed example_world (snd run)) = [ps] \<and> map PartNumber ps = [1, 2, 3])"
proof -
  define F :: bytes where "F = replicate (2 * CHUNK_SIZE + 1) CHR ''a''"
  define run where
    "run = put (example_middleware (mem_s3 (\<lambda>body. body))) example_backup ''db.tar'' F example_world"
  define ups where "ups = uploads (performed example_world (snd run))"
  from put_mem[OF example_facts(1) example_facts(2) example_facts(3) example_facts(4),
          of "\<lambda>body. body" F example_world]
  obtain w' where
    pw: "put (example_middleware (mem_s3 (\<lambda>body. body))) example_backup ''db.tar'' F example_world
              = (Inr (), w')"
    by auto
  then have f: "fst run = Inr ()" and sr: "snd run = w'" unfolding run_def by simp_all
  have ok: "put (example_middleware (mem_s3 (\<lambda>body. body))) example_backup ''db.tar'' F example_world
              = (Inr (), snd run)"
    unfolding sr by (rule pw)
  have n: "(length F + CHUNK_SIZE - 1) div CHUNK_SIZE = 3" by (simp add: F_def CHUNK_SIZE_def)
  have m: "length F mod CHUNK_SIZE = 1" by (simp add: F_def CHUNK_SIZE_def)
  have iv: "[1..<Suc 3] = [1, 2, 3]" by (simp add: upt_rec)
  note T = put_uploads_every_chunk[OF ok, unfolded Let_def n m iv, folded ups_def]
  from T have len: "length ups = 3" by blast
  then have ne: "ups \<noteq> []" by auto
  from len have lb: "length (butlast ups) = 2" by simp
  have "butlast ups ! 0 \<in> set (butlast ups)" "butlast ups ! 1 \<in> set (butlast ups)"
    using lb by simp_all
  moreover have "butlast ups ! 0 = ups ! 0" "butlast ups ! 1 = ups ! 1"
    using lb by (simp_all add: nth_butlast)
  ultimately have b0: "ups ! 0 \<in> set (butlast ups)" and b1: "ups ! 1 \<in> set (butlast ups)"
    by simp_all
  from T b0 have c0: "length (up_Body (ups ! 0)) = CHUNK_SIZE" by blast
  from T b1 have c1: "length (up_Body (ups ! 1)) = CHUNK_SIZE" by blast
  from T ne have c2: "length (up_Body (last ups)) = 1" by simp
  from T have nums: "map up_PartNumber ups = [1, 2, 3]" and whole: "concat (map up_Body ups) = F"
    by blast+
  from T obtain ps where "completions (performed example_world (snd run)) = [ps]"
    and "map PartNumber ps = [1, 2, 3]"
    by (elim conjE exE)
  then have comp: "\<exists>ps. completions (performed example_world (snd run)) = [ps] \<and> map PartNumber ps = [1, 2, 3]"
    by (intro exI[of _ ps] conjI)
  show ?thesis
    unfolding Let_def using f len nums c0 c1 c2 whole comp
    unfolding ups_def run_def F_def by (intro conjI)
qed

text \<open>
  Claim C2. \<open>put\<close> of a stream followed by \<open>get\<close> of the same file name under the same
  task is meant to write the stream, byte for byte, to the destination. The code, run on
  the object store in memory: for the stream of 1 byte \<open>put\<close> stores the byte and
  \<open>get\<close> fetches it (same bucket, same key), but nothing reaches the destination; for
  the stream of \<open>2C + 1\<close> bytes the first \<open>2C\<close> bytes arrive and the last byte does not.
  The last chunk waits in the buffer of the writer, which \<open>get\<close> never flushes. The
  streams of 0 and of \<open>C\<close> bytes arrive whole. For a task whose id is not the id of a
  credential \<open>put\<close> fails before it opens a session.
\<close>

theorem get_loses_unflushed_chunk:
  "(\<exists>w1 w2. put (example_middleware (mem_s3 (\<lambda>body. body))) example_backup ''db.tar''
               ''x'' example_world = (Inr (), w1) \<and>
            get (example_middleware (mem_s3 (\<lambda>body. body))) example_backup ''db.tar'' w1 =
               (Inr (), [], w2) \<and>
            performed w1 w2 = [Datastore_Query ''system.cloudcredentials'' 1,
                               Get_Object (PyStr ''vault'') ''nightly/db.tar'' (Inr ''x'')]) \<and>
   (\<exists>w1 w2. put (example_middleware (mem_s3 (\<lambda>body. body))) example_backup ''db.tar''
               (replicate (2 * CHUNK_SIZE + 1) CHR ''a'') example_world = (Inr (), w1) \<and>
            get (example_middleware (mem_s3 (\<lambda>body. body))) example_backup ''db.tar'' w1 =
               (Inr (), replicate (2 * CHUNK_SIZE) CHR ''a'', w2) \<and>
            performed w1 w2 = [Datastore_Query ''system.cloudcredentials'' 1,
                               Get_Object (PyStr ''vault'') ''nightly/db.tar''
                                 (Inr (replicate (2 * CHUNK_SIZE + 1) CHR ''a''))]) \<and>
   (\<exists>w1 w2. put (example_middleware (mem_s3 (\<lambda>body. body))) example_backup ''db.tar''
               [] example_world = (Inr (), w1) \<and>
            get (example_middleware (mem_s3 (\<lambda>body. body))) example_backup ''db.tar'' w1 =
               (Inr (), [], w2)) \<and>
   (\<exists>w1 w2. put (example_middleware (mem_s3 (\<lambda>body. body))) example_backup ''db.tar''
               (replicate CHUNK_SIZE CHR ''a'') example_world = (Inr (), w1) \<and>
            get (example_middleware (mem_s3 (\<lambda>body. body))) example_backup ''db.tar'' w1 =
               (Inr (), replicate CHUNK_SIZE CHR ''a'', w2)) \<and>
   fst (put (example_middleware (mem_s3 (\<lambda>body. body))) (example_backup\<lparr>backup_id := 5\<rparr>)
          ''db.tar'' ''x'' example_world) = Inl (TypeError ''NoneType object is not subscriptable'')"
proof -
  note T = put_get_mem[OF example_facts(1) example_facts(2) example_facts(3) example_facts(4),
             of "\<lambda>body. body" _ example_world, unfolded ex_sel]
  have u1: "length ''x'' - unflushed ''x'' = 0"
    by (simp add: unflushed_def CHUNK_SIZE_def DEFAULT_BUFFER_SIZE_def)
  have u2: "take (length (replicate (2 * CHUNK_SIZE + 1) CHR ''a'') -
                  unflushed (replicate (2 * CHUNK_SIZE + 1) CHR ''a''))
              (replicate (2 * CHUNK_SIZE + 1) CHR ''a'') = replicate (2 * CHUNK_SIZE) CHR ''a''"
  proof -
    have m: "(2 * CHUNK_SIZE + 1) mod CHUNK_SIZE = 1" by (simp add: CHUNK_SIZE_def)
    have l: "length (replicate (2 * CHUNK_SIZE + 1) CHR ''a'') = 2 * CHUNK_SIZE + 1"
      by (rule length_replicate)
    have u: "unflushed (replicate (2 * CHUNK_SIZE + 1) CHR ''a'') = 1"
      unfolding unflushed_def l m by (simp add: DEFAULT_BUFFER_SIZE_def)
    have "take (2 * CHUNK_SIZE) (replicate (2 * CHUNK_SIZE + 1) CHR ''a'') =
            replicate (min (2 * CHUNK_SIZE) (2 * CHUNK_SIZE + 1)) CHR ''a''"
      by (rule take_replicate)
    also have "min (2 * CHUNK_SIZE) (2 * CHUNK_SIZE + 1) = 2 * CHUNK_SIZE" by simp
    finally show ?thesis unfolding l u by (simp only: add_diff_cancel_right')
  qed
  have u3: "take (length (replicate CHUNK_SIZE CHR ''a'') - unflushed (replicate CHUNK_SIZE CHR ''a''))
              (replicate CHUNK_SIZE CHR ''a'') = replicate CHUNK_SIZE CHR ''a''"
    by (simp add: unflushed_def)
  from T[of "''x''"] have a: "\<exists>w1 w2. put (example_middleware (mem_s3 (\<lambda>body. body))) example_backup ''db.tar''
               ''x'' example_world = (Inr (), w1) \<and>
            get (example_middleware (mem_s3 (\<lambda>body. body))) example_backup ''db.tar'' w1 =
               (Inr (), [], w2) \<and>
            performed w1 w2 = [Datastore_Query ''system.cloudcredentials'' 1,
                               Get_Object (PyStr ''vault'') ''nightly/db.tar'' (Inr ''x'')]"
    unfolding u1 by simp
  note b = T[of "replicate (2 * CHUNK_SIZE + 1) CHR ''a''", unfolded u2]
  from T[of "[]"] have c: "\<exists>w1 w2. put (example_middleware (mem_s3 (\<lambda>body. body))) example_backup ''db.tar''
               [] example_world = (Inr (), w1) \<and>
            get (example_middleware (mem_s3 (\<lambda>body. body))) example_backup ''db.tar'' w1 =
               (Inr (), [], w2)"
    by auto
  from T[of "replicate CHUNK_SIZE CHR ''a''", unfolded u3]
  have d: "\<exists>w1 w2. put (example_middleware (mem_s3 (\<lambda>body. body))) example_backup ''db.tar''
               (replicate CHUNK_SIZE CHR ''a'') example_world = (Inr (), w1) \<and>
            get (example_middleware (mem_s3 (\<lambda>body. body))) example_backup ''db.tar'' w1 =
               (Inr (), replicate CHUNK_SIZE CHR ''a'', w2)"
    by blast
  have e: "fst (put (example_middleware (mem_s3 (\<lambda>body. body))) (example_backup\<lparr>backup_id := 5\<rparr>)
          ''db.tar'' ''x'' example_world) = Inl (TypeError ''NoneType object is not subscriptable'')"
    by (simp add: put_def get_client_def query_cloudcredentials_def example_middleware_def
          example_backup_def)
  from a b c d e show ?thesis by (intro conjI)
qed

text \<open>
  Claim C5. When a call of \<open>upload_part\<close> made by \<open>put\<close> raises, \<open>put\<close> ends with that
  error, the failed call is the last thing \<open>put\<close> does (no further part, nothing that
  would abort the session) and \<open>complete_multipart_upload\<close> is not called.
\<close>

theorem put_upload_failure_propagates:
  assumes "put mw b filename f w = (r, w')"
    and "u \<in> set (uploads (performed w w'))"
    and "up_answer u = Inl e"
  shows "r = Inl e \<and>
         completions (performed w w') = [] \<and>
         (\<exists>bucket key uid. last (performed w w') =
            Upload_Part bucket key (up_PartNumber u) uid (up_ContentLength u) (up_Body u) (Inl e))"
  using assms(1)
proof (cases rule: put_cases)
  case (no_session e')
  with assms(2) show ?thesis by simp
next
  case (create_failed bucket key e')
  with assms(2) show ?thesis by simp
next
  case (upload_failed bucket key uid es e')
  let ?ok = "upload_events bucket key uid 1 (take (length es) (chunks f)) es"
  let ?bad = "\<lparr>up_PartNumber = 1 + length es, up_ContentLength = CHUNK_SIZE,
               up_Body = chunks f ! length es, up_answer = Inl e'\<rparr>"
  from upload_failed assms(2) have "u \<in> set (uploads ?ok) \<or> u = ?bad"
    by (auto simp: uploads_append)
  moreover have "u \<notin> set (uploads ?ok)"
  proof
    assume "u \<in> set (uploads ?ok)"
    then have "up_answer u \<in> set (map up_answer (uploads ?ok))" by simp
    then have "up_answer u \<in> set (map Inr (take (length (take (length es) (chunks f))) es))"
      by (simp only: answers_upload_events)
    with assms(3) show False by auto
  qed
  ultimately have u: "u = ?bad" by blast
  with assms(3) have "e' = e" by simp
  with upload_failed u show ?thesis
    by (simp add: completions_append completions_upload_events)
next
  case (completed bucket key uid es)
  from completed assms(2) have "u \<in> set (uploads (upload_events bucket key uid 1 (chunks f) es))"
    by (auto simp: uploads_append)
  then have "up_answer u \<in> set (map up_answer (uploads (upload_events bucket key uid 1 (chunks f) es)))"
    by simp
  then have "up_answer u \<in> set (map Inr (take (length (chunks f)) es))"
    by (simp only: answers_upload_events)
  with assms(3) show ?thesis by auto
qed

theorem put_upload_failure_propagates_witness:
  "fst (put (example_middleware (broken_s3 1)) example_backup ''db.tar'' ''x'' example_world) =
     Inl (ClientError ''RequestTimeout'') \<and>
   completions (performed example_world
     (snd (put (example_middleware (broken_s3 1)) example_backup ''db.tar'' ''x'' example_world))) = [] \<and>
   (\<exists>bucket key uid. last (performed example_world
        (snd (put (example_middleware (broken_s3 1)) example_backup ''db.tar'' ''x'' example_world))) =
      Upload_Part bucket key 1 uid CHUNK_SIZE ''x'' (Inl (ClientError ''RequestTimeout'')))"
proof -
  let ?u = "\<lparr>up_PartNumber = 1, up_ContentLength = CHUNK_SIZE, up_Body = ''x'',
             up_answer = Inl (ClientError ''RequestTimeout'')\<rparr>"
  have m: "?u \<in> set (uploads (performed example_world
        (snd (put (example_middleware (broken_s3 1)) example_backup ''db.tar'' ''x'' example_world))))"
    by (simp only: example_put_broken snd_conv) (simp add: performed_def example_world_def)
  have a: "up_answer ?u = Inl (ClientError ''RequestTimeout'')" by simp
  have p: "put (example_middleware (broken_s3 1)) example_backup ''db.tar'' ''x'' example_world =
      (fst (put (example_middleware (broken_s3 1)) example_backup ''db.tar'' ''x'' example_world),
       snd (put (example_middleware (broken_s3 1)) example_backup ''db.tar'' ''x'' example_world))"
    by (rule prod.collapse[symmetric])
  from put_upload_failure_propagates[OF p m a] show ?thesis by simp
qed

text \<open>
  Claim C9. Every call of \<open>upload_part\<close> made by \<open>put\<close> declares a \<open>ContentLength\<close> of
  \<open>5 * 1024 * 1024\<close>, whatever the length of the body it passes; the body is never empty
  and never longer, and for a stream whose length is not a multiple of the chunk size
  the last call declares 5 MiB for a body of \<open>L mod C\<close> bytes.
\<close>

theorem put_declares_chunk_size:
  assumes "put mw b filename f w = (r, w')"
  shows "(\<forall>u \<in> set (uploads (performed w w')).
            up_ContentLength u = 5 * 1024 * 1024 \<and> up_Body u \<noteq> [] \<and>
            length (up_Body u) \<le> up_ContentLength u) \<and>
         (r = Inr () \<and> length f mod CHUNK_SIZE \<noteq> 0 \<longrightarrow>
            up_ContentLength (last (uploads (performed w w'))) = 5 * 1024 * 1024 \<and>
            length (up_Body (last (uploads (performed w w')))) = length f mod CHUNK_SIZE \<and>
            length f mod CHUNK_SIZE < 5 * 1024 * 1024)"
proof -
  let ?ups = "uploads (performed w w')"
  have sz: "CHUNK_SIZE = 5 * 1024 * 1024" by (simp add: CHUNK_SIZE_def)
  have body_ok: "\<And>u. u \<in> set ?ups \<Longrightarrow> up_ContentLength u = CHUNK_SIZE \<and> up_Body u \<in> set (chunks f)"
    using assms
  proof (cases rule: put_cases)
    case (upload_failed bucket key uid es e)
    fix u assume "u \<in> set ?ups"
    with upload_failed have "u \<in> set (uploads (upload_events bucket key uid 1 (take (length es) (chunks f)) es))
        \<or> u = \<lparr>up_PartNumber = 1 + length es, up_ContentLength = CHUNK_SIZE,
               up_Body = chunks f ! length es, up_answer = Inl e\<rparr>"
      by (auto simp: uploads_append)
    then show "up_ContentLength u = CHUNK_SIZE \<and> up_Body u \<in> set (chunks f)"
    proof
      assume m: "u \<in> set (uploads (upload_events bucket key uid 1 (take (length es) (chunks f)) es))"
      then have "up_Body u \<in> set (map up_Body (uploads (upload_events bucket key uid 1 (take (length es) (chunks f)) es)))"
        by simp
      then have "up_Body u \<in> set (take (length es) (take (length es) (chunks f)))"
        by (simp only: bodies_upload_events)
      then have "up_Body u \<in> set (chunks f)" by (auto dest: in_set_takeD)
      with declared_upload_events[OF m] show ?thesis by simp
    next
      assume "u = \<lparr>up_PartNumber = 1 + length es, up_ContentLength = CHUNK_SIZE,
               up_Body = chunks f ! length es, up_answer = Inl e\<rparr>"
      with upload_failed(2) show ?thesis by simp
    qed
  next
    case (completed bucket key uid es)
    fix u assume "u \<in> set ?ups"
    with completed have m: "u \<in> set (uploads (upload_events bucket key uid 1 (chunks f) es))"
      by (auto simp: uploads_append)
    then have "up_Body u \<in> set (map up_Body (uploads (upload_events bucket key uid 1 (chunks f) es)))"
      by simp
    then have "up_Body u \<in> set (take (length es) (chunks f))"
      by (simp only: bodies_upload_events)
    then have "up_Body u \<in> set (chunks f)" by (auto dest: in_set_takeD)
    with declared_upload_events[OF m] show "up_ContentLength u = CHUNK_SIZE \<and> up_Body u \<in> set (chunks f)"
      by simp
  qed simp_all
  have first: "\<forall>u \<in> set ?ups. up_ContentLength u = 5 * 1024 * 1024 \<and> up_Body u \<noteq> [] \<and>
            length (up_Body u) \<le> up_ContentLength u"
  proof
    fix u assume "u \<in> set ?ups"
    from body_ok[OF this] chunk_nonempty[of "up_Body u" f] sz
    show "up_ContentLength u = 5 * 1024 * 1024 \<and> up_Body u \<noteq> [] \<and>
            length (up_Body u) \<le> up_ContentLength u" by simp
  qed
  have second: "up_ContentLength (last ?ups) = 5 * 1024 * 1024 \<and>
            length (up_Body (last ?ups)) = length f mod CHUNK_SIZE \<and>
            length f mod CHUNK_SIZE < 5 * 1024 * 1024"
    if ok: "r = Inr ()" and short: "length f mod CHUNK_SIZE \<noteq> 0"
    using assms
  proof (cases rule: put_cases)
    case (completed bucket key uid es)
    from short have fne: "f \<noteq> []" by auto
    then have cne: "chunks f \<noteq> []" by (simp add: chunks_eq_Nil)
    have bodies: "map up_Body ?ups = chunks f"
      using completed by (simp add: uploads_append bodies_upload_events)
    with cne have une: "?ups \<noteq> []" by auto
    then have "last ?ups \<in> set ?ups" by simp
    from first[rule_format, OF this] have d: "up_ContentLength (last ?ups) = 5 * 1024 * 1024" by simp
    have "up_Body (last ?ups) = last (map up_Body ?ups)" using une by (simp add: last_map)
    then have "up_Body (last ?ups) = last (chunks f)" by (simp only: bodies)
    with chunks_last[OF fne] short have l: "length (up_Body (last ?ups)) = length f mod CHUNK_SIZE"
      by simp
    have "length f mod CHUNK_SIZE < CHUNK_SIZE" using CHUNK_SIZE_pos by simp
    with d l sz show ?thesis by simp
  qed (use ok in simp_all)
  from first second show ?thesis by blast
qed

theorem put_declares_chunk_size_witness:
  "let run = put (example_middleware (mem_s3 (\<lambda>body. body))) example_backup ''db.tar'' ''x'' example_world;
       ups = uploads (performed example_world (snd run))
   in fst run = Inr () \<and> ups \<noteq> [] \<and> last ups \<in> set ups \<and>
      up_ContentLength (last ups) = 5242880 \<and> length (up_Body (last ups)) = 1"
proof -
  define run where
    "run = put (example_middleware (mem_s3 (\<lambda>body. body))) example_backup ''db.tar'' ''x'' example_world"
  define ups where "ups = uploads (performed example_world (snd run))"
  from put_mem[OF example_facts(1) example_facts(2) example_facts(3) example_facts(4),
          of "\<lambda>body. body" "''x''" example_world]
  obtain w' where
    pw: "put (example_middleware (mem_s3 (\<lambda>body. body))) example_backup ''db.tar'' ''x'' example_world
              = (Inr (), w')"
    by auto
  then have f: "fst run = Inr ()" and sr: "snd run = w'" unfolding run_def by simp_all
  have ok: "put (example_middleware (mem_s3 (\<lambda>body. body))) example_backup ''db.tar'' ''x'' example_world
              = (Inr (), snd run)"
    unfolding sr by (rule pw)
  have "map up_Body ups = chunks ''x''" unfolding ups_def by (rule put_ok_bodies[OF ok])
  moreover have "chunks ''x'' \<noteq> []" by (simp add: chunks_eq_Nil)
  ultimately have ne: "ups \<noteq> []" by auto
  then have l: "last ups \<in> set ups" by simp
  have short: "length ''x'' mod CHUNK_SIZE \<noteq> 0" by (simp add: CHUNK_SIZE_def)
  have m: "length ''x'' mod CHUNK_SIZE = 1" by (simp add: CHUNK_SIZE_def)
  note T = put_declares_chunk_size[OF ok, folded ups_def]
  from T short have "up_ContentLength (last ups) = 5 * 1024 * 1024 \<and>
      length (up_Body (last ups)) = length ''x'' mod CHUNK_SIZE" by blast
  with m have d: "up_ContentLength (last ups) = 5242880" "length (up_Body (last ups)) = 1" by simp_all
  show ?thesis
    unfolding Let_def using f ne l d unfolding ups_def run_def by (intro conjI)
qed

text \<open>
  Claim C10. On an empty stream \<open>put\<close>, once the client and the key are there, calls
  \<open>create_multipart_upload\<close> exactly once, whatever the stream holds; when that call
  answers, \<open>put\<close> uploads no part and calls \<open>complete_multipart_upload\<close> exactly once,
  with the empty part list, and the answer of that call is the outcome of \<open>put\<close>.
\<close>

theorem put_empty_stream:
  assumes "system_cloudcredentials mw (backup_id b) = Some c"
    and "remote_key b filename = Inr key"
    and "getitem (backup_attributes b) ''bucket'' = Inr bucket"
    and "put mw b filename [] w = (r, w')"
  shows "\<exists>a. performed w w' =
           [Datastore_Query ''system.cloudcredentials'' (backup_id b),
            Create_Multipart_Upload bucket key a] @
           (case a of
              Inl e \<Rightarrow> []
            | Inr uid \<Rightarrow> [Complete_Multipart_Upload bucket key uid [] r]) \<and>
         (case a of Inl e \<Rightarrow> r = Inl e | Inr uid \<Rightarrow> True) \<and>
         uploads (performed w w') = []"
proof -
  obtain client w1 where gc: "get_client mw (backup_id b) w = (Inr client, w1)"
    using assms(1) by (simp add: get_client_def query_cloudcredentials_def)
  note t1 = get_client_run[OF gc, THEN conjunct1]
  obtain a w2 where cr: "call_create_multipart_upload (boto3_s3 mw) client bucket key w1 = (a, w2)"
    by (cases "call_create_multipart_upload (boto3_s3 mw) client bucket key w1")
  note t2 = call_create_trace[OF cr]
  show ?thesis
  proof (cases a)
    case (Inl e)
    with assms gc cr have "r = Inl e" "w' = w2" by (simp_all add: put_def)
    with t1 t2 Inl show ?thesis by (intro exI[of _ a]) (simp add: performed_append)
  next
    case (Inr uid)
    have lp: "put_loop (boto3_s3 mw) client bucket key uid [] [] 1 w2 = (Inr [], w2)"
      by (subst put_loop.simps) simp
    with assms gc cr Inr
    have fin: "call_complete_multipart_upload (boto3_s3 mw) client bucket key uid [] w2 = (r, w')"
      by (simp add: put_def)
    from call_complete_trace[OF fin] t1 t2 Inr show ?thesis
      by (intro exI[of _ a]) (simp add: performed_append)
  qed
qed

theorem put_empty_stream_witness:
  "performed example_world
     (snd (put (example_middleware (mem_s3 (\<lambda>body. body))) example_backup ''db.tar'' [] example_world)) =
     [Datastore_Query ''system.cloudcredentials'' 1,
      Create_Multipart_Upload (PyStr ''vault'') ''nightly/db.tar'' (Inr ''u''),
      Complete_Multipart_Upload (PyStr ''vault'') ''nightly/db.tar'' ''u'' [] (Inr ())] \<and>
   uploads (performed example_world
     (snd (put (example_middleware (mem_s3 (\<lambda>body. body))) example_backup ''db.tar'' [] example_world))) = []"
  using put_empty_stream[OF example_facts(2) example_facts(3) example_facts(4) example_put_empty]
  by (simp only: example_put_empty snd_conv) (simp add: performed_def example_world_def)

section \<open>The claims about the two sync methods\<close>

text \<open>
  Claim C3. The scanner is meant to publish the stripped value of a line
  \<open>Transferred: <value>\<close> when the value is not all digits, so \<open>42%\<close> for the line
  \<open>Transferred: 42%\<close>. The code at that line: the line read from the pipe is a
  \<open>bytes\<close> object, the search of the \<open>str\<close> pattern on it raises \<open>TypeError\<close>, the
  scanner ends and nothing is published, for this line and for every list of lines. On
  the same text as a \<open>str\<close> the pattern, \<open>strip\<close> and \<open>isdigit\<close> give what the claim says.
\<close>

theorem check_progress_on_percent_line:
  "check_progress [''Transferred: 42%'' @ [CHR 0x0A]] [] =
     (Inl (TypeError ''cannot use a string pattern on a bytes-like object''), []) \<and>
   snd (check_progress lines pub) = pub \<and>
   RE_TRANSF_search (PyStr (''Transferred: 42%'' @ [CHR 0x0A])) = Inr (Some ('' 42%'' @ [CHR 0x0A])) \<and>
   strip ('' 42%'' @ [CHR 0x0A]) = ''42%'' \<and> \<not> isdigit ''42%''"
proof -
  have "snd (check_progress lines pub) = pub" by (cases lines) simp_all
  then show ?thesis by (simp add: strip_def isspace_def isdigit_def)
qed

text \<open>
  Claim C4. When the credential of the task names a provider other than \<open>AMAZON\<close>, the
  only supported one, \<open>sync\<close> fails with an error whose message ends with that provider
  value, and all it has done is the two datastore lookups: no call of the object store, no
  temporary file, no process, nothing published.
\<close>

theorem sync_unsupported_provider:
  assumes "tasks_cloudsync mw i = Some b"
    and "system_cloudcredentials mw (backup_credential_id b) = Some c"
    and "credential_provider c \<noteq> ''AMAZON''"
  shows "BackupService_sync os mw i w =
           (Inl (NotImplementedError (''Unsupported provider: '' @ credential_provider c)),
            log (Datastore_Query ''system.cloudcredentials'' (backup_credential_id b))
              (log (Datastore_Query ''tasks.cloudsync'' i) w)) \<and>
         performed w (snd (BackupService_sync os mw i w)) =
           [Datastore_Query ''tasks.cloudsync'' i,
            Datastore_Query ''system.cloudcredentials'' (backup_credential_id b)] \<and>
         remote (snd (BackupService_sync os mw i w)) = remote w \<and>
         progress (snd (BackupService_sync os mw i w)) = progress w"
  using assms
  by (simp add: BackupService_sync_def query_cloudsync_def query_cloudcredentials_def
        performed_log2) (simp add: log_def)

theorem sync_unsupported_provider_witness:
  "BackupService_sync (example_system 0)
       ((example_middleware (mem_s3 (\<lambda>body. body)))
          \<lparr>system_cloudcredentials := [1 \<mapsto> example_credential\<lparr>credential_provider := ''GOOGLE''\<rparr>]\<rparr>)
       1 example_world =
     (Inl (NotImplementedError ''Unsupported provider: GOOGLE''),
      log (Datastore_Query ''system.cloudcredentials'' 1)
        (log (Datastore_Query ''tasks.cloudsync'' 1) example_world)) \<and>
   performed example_world (snd (BackupService_sync (example_system 0)
       ((example_middleware (mem_s3 (\<lambda>body. body)))
          \<lparr>system_cloudcredentials := [1 \<mapsto> example_credential\<lparr>credential_provider := ''GOOGLE''\<rparr>]\<rparr>)
       1 example_world)) =
     [Datastore_Query ''tasks.cloudsync'' 1, Datastore_Query ''system.cloudcredentials'' 1]"
proof -
  let ?mw = "(example_middleware (mem_s3 (\<lambda>body. body)))
          \<lparr>system_cloudcredentials := [1 \<mapsto> example_credential\<lparr>credential_provider := ''GOOGLE''\<rparr>]\<rparr>"
  let ?c = "example_credential\<lparr>credential_provider := ''GOOGLE''\<rparr>"
  have a: "tasks_cloudsync ?mw 1 = Some example_backup"
    by (simp add: example_middleware_def)
  have c: "backup_credential_id example_backup = 1" by (simp add: example_backup_def)
  have b: "system_cloudcredentials ?mw (backup_credential_id example_backup) = Some ?c"
    by (simp add: c)
  have p: "credential_provider ?c \<noteq> ''AMAZON''" by simp
  have q: "''Unsupported provider: '' @ credential_provider ?c = ''Unsupported provider: GOOGLE''"
    by simp
  from sync_unsupported_provider[OF a b p, of "example_system 0" example_world]
  show ?thesis unfolding c q by (intro conjI) blast+
qed

text \<open>
  Claim C6. In every run of the tree sync the temporary file is, after each event from
  its creation to its deletion, either absent or of mode \<open>0o600\<close>, readable neither by the
  group nor by everyone else; whenever its content is written, exactly its creation and
  the \<open>chmod\<close> to \<open>0o600\<close> have happened before and the file is still empty; the run
  begins with the creation and ends with the deletion of the file.
\<close>

theorem tempfile_owner_only_throughout:
  assumes "BackupS3Service_sync os b c w = (r, w')"
  shows "(\<forall>k \<le> length (performed w w').
            owner_only (file_after (tmp_name os) (take k (performed w w')))) \<and>
         (\<forall>pre n s post. performed w w' = pre @ Write_File n s # post \<longrightarrow>
            n = tmp_name os \<and>
            pre = [Tempfile_Create (tmp_name os) mode_0o600, Chmod (tmp_name os) mode_0o600] \<and>
            file_after (tmp_name os) pre = Some (mode_0o600, [])) \<and>
         hd (performed w w') = Tempfile_Create (tmp_name os) mode_0o600 \<and>
         last (performed w w') = Tempfile_Delete (tmp_name os) \<and>
         file_after (tmp_name os) (performed w w') = None"
proof -
  let ?n = "tmp_name os"
  from sync_shape[OF assms] obtain evs where
    p: "performed w w' = Tempfile_Create ?n mode_0o600 # Chmod ?n mode_0o600 # evs @ [Tempfile_Delete ?n]"
    and s: "evs = [] \<or>
            (\<exists>cfg. evs = [Write_File ?n cfg] \<or>
              (\<exists>args. evs = [Write_File ?n cfg, Popen args] \<or>
                      evs = [Write_File ?n cfg, Popen args, Communicate]))"
    by blast
  have safe: "safe_from ?n None (performed w w')"
    using s unfolding p by (auto simp: mode_0o600_private)
  have a: "\<forall>k \<le> length (performed w w'). owner_only (file_after ?n (take k (performed w w')))"
    unfolding file_after_def using safe_from_take[OF safe] by blast
  have b: "\<forall>pre n s post. performed w w' = pre @ Write_File n s # post \<longrightarrow>
            n = ?n \<and> pre = [Tempfile_Create ?n mode_0o600, Chmod ?n mode_0o600] \<and>
            file_after ?n pre = Some (mode_0o600, [])"
    using s unfolding p
    by (auto simp: append_eq_Cons_conv Cons_eq_append_conv file_after_def)
  have c: "hd (performed w w') = Tempfile_Create ?n mode_0o600" unfolding p by simp
  have d: "last (performed w w') = Tempfile_Delete ?n" unfolding p by simp
  have e: "file_after ?n (performed w w') = None"
    unfolding p file_after_def by simp
  from a b c d e show ?thesis by blast
qed

theorem tempfile_owner_only_throughout_witness:
  "let evs = performed example_world
        (snd (BackupS3Service_sync (example_system 0) example_backup example_credential example_world))
   in length evs = 6 \<and>
      evs ! 2 = Write_File ''/tmp/tmpk3v9x2'' (rclone_config (PyStr ''AK'') (PyStr ''SK'') (PyStr [])) \<and>
      file_after ''/tmp/tmpk3v9x2'' (take 2 evs) = Some (mode_0o600, []) \<and>
      owner_only (file_after ''/tmp/tmpk3v9x2'' (take 3 evs)) \<and>
      file_after ''/tmp/tmpk3v9x2'' (take 3 evs) =
        Some (384, rclone_config (PyStr ''AK'') (PyStr ''SK'') (PyStr [])) \<and>
      owner_only (file_after ''/tmp/tmpk3v9x2'' (take 5 evs)) \<and>
      file_after ''/tmp/tmpk3v9x2'' evs = None"
proof -
  define run where
    "run = BackupS3Service_sync (example_system 0) example_backup example_credential example_world"
  define evs where "evs = performed example_world (snd run)"
  have e: "evs = [Tempfile_Create ''/tmp/tmpk3v9x2'' mode_0o600, Chmod ''/tmp/tmpk3v9x2'' mode_0o600,
    Write_File ''/tmp/tmpk3v9x2'' (rclone_config (PyStr ''AK'') (PyStr ''SK'') (PyStr [])),
    Popen (rclone_args (example_system 0) example_backup (PyStr ''vault'')),
    Communicate, Tempfile_Delete ''/tmp/tmpk3v9x2'']"
    unfolding evs_def run_def by (rule example_sync_events)
  have p: "BackupS3Service_sync (example_system 0) example_backup example_credential example_world =
      (fst run, snd run)" unfolding run_def by simp
  note T = tempfile_owner_only_throughout[OF p, folded evs_def, unfolded example_sync_facts(6)]
  have len: "length evs = 6" unfolding e by simp
  from T len have o3: "owner_only (file_after ''/tmp/tmpk3v9x2'' (take 3 evs))"
    and o5: "owner_only (file_after ''/tmp/tmpk3v9x2'' (take 5 evs))" by simp_all
  from T have gone: "file_after ''/tmp/tmpk3v9x2'' evs = None" by blast
  have w: "evs ! 2 = Write_File ''/tmp/tmpk3v9x2'' (rclone_config (PyStr ''AK'') (PyStr ''SK'') (PyStr []))"
    unfolding e by simp
  have split: "evs = take 2 evs @ Write_File ''/tmp/tmpk3v9x2'' (rclone_config (PyStr ''AK'') (PyStr ''SK'') (PyStr [])) # drop 3 evs"
    unfolding e by simp
  from T split have b2: "file_after ''/tmp/tmpk3v9x2'' (take 2 evs) = Some (mode_0o600, [])" by blast
  have a3: "file_after ''/tmp/tmpk3v9x2'' (take 3 evs) =
      Some (384, rclone_config (PyStr ''AK'') (PyStr ''SK'') (PyStr []))"
    unfolding e by (simp add: file_after_def mode_0o600_def)
  show ?thesis
    unfolding Let_def using len w b2 o3 a3 o5 gone unfolding evs_def run_def by (intro conjI)
qed

text \<open>
  Claim C7. For an id with no backup task \<open>sync\<close> fails with \<open>ValueError('Unknown id')\<close>
  having done nothing but the task lookup; for a task whose credential does not resolve it
  fails with \<open>ValueError('Backup credential not found.')\<close> having done nothing but the
  two lookups, before any dispatch on the provider. The error is the result of \<open>sync\<close>
  as it was raised.
\<close>

theorem sync_unknown_task_or_credential:
  "(tasks_cloudsync mw i = None \<longrightarrow>
      BackupService_sync os mw i w =
        (Inl (ValueError ''Unknown id''), log (Datastore_Query ''tasks.cloudsync'' i) w) \<and>
      performed w (snd (BackupService_sync os mw i w)) = [Datastore_Query ''tasks.cloudsync'' i]) \<and>
   (tasks_cloudsync mw i = Some b \<and> system_cloudcredentials mw (backup_credential_id b) = None \<longrightarrow>
      BackupService_sync os mw i w =
        (Inl (ValueError ''Backup credential not found.''),
         log (Datastore_Query ''system.cloudcredentials'' (backup_credential_id b))
           (log (Datastore_Query ''tasks.cloudsync'' i) w)) \<and>
      performed w (snd (BackupService_sync os mw i w)) =
        [Datastore_Query ''tasks.cloudsync'' i,
         Datastore_Query ''system.cloudcredentials'' (backup_credential_id b)])"
  by (simp add: BackupService_sync_def query_cloudsync_def query_cloudcredentials_def
        performed_log performed_log2)

theorem sync_unknown_task_or_credential_witness:
  "BackupService_sync (example_system 0) (example_middleware (mem_s3 (\<lambda>body. body))) 2 example_world =
     (Inl (ValueError ''Unknown id''), log (Datastore_Query ''tasks.cloudsync'' 2) example_world) \<and>
   BackupService_sync (example_system 0)
       ((example_middleware (mem_s3 (\<lambda>body. body)))\<lparr>system_cloudcredentials := Map.empty\<rparr>) 1 example_world =
     (Inl (ValueError ''Backup credential not found.''),
      log (Datastore_Query ''system.cloudcredentials'' 1)
        (log (Datastore_Query ''tasks.cloudsync'' 1) example_world))"
proof -
  have a: "tasks_cloudsync (example_middleware (mem_s3 (\<lambda>body. body))) 2 = None"
    by (simp add: example_middleware_def)
  have b: "tasks_cloudsync ((example_middleware (mem_s3 (\<lambda>body. body)))\<lparr>system_cloudcredentials := Map.empty\<rparr>) 1
             = Some example_backup"
    "system_cloudcredentials ((example_middleware (mem_s3 (\<lambda>body. body)))\<lparr>system_cloudcredentials := Map.empty\<rparr>)
        (backup_credential_id example_backup) = None"
    by (simp_all add: example_middleware_def)
  have c: "backup_credential_id example_backup = 1" by (simp add: example_backup_def)
  from sync_unknown_task_or_credential[of "example_middleware (mem_s3 (\<lambda>body. body))" 2
         "example_system 0" example_world example_backup] a
  have one: "BackupService_sync (example_system 0) (example_middleware (mem_s3 (\<lambda>body. body))) 2 example_world =
     (Inl (ValueError ''Unknown id''), log (Datastore_Query ''tasks.cloudsync'' 2) example_world)"
    by blast
  from sync_unknown_task_or_credential[of
         "(example_middleware (mem_s3 (\<lambda>body. body)))\<lparr>system_cloudcredentials := Map.empty\<rparr>" 1
         "example_system 0" example_world example_backup] b
  have two: "BackupService_sync (example_system 0)
       ((example_middleware (mem_s3 (\<lambda>body. body)))\<lparr>system_cloudcredentials := Map.empty\<rparr>) 1 example_world =
     (Inl (ValueError ''Backup credential not found.''),
      log (Datastore_Query ''system.cloudcredentials'' (backup_credential_id example_backup))
        (log (Datastore_Query ''tasks.cloudsync'' 1) example_world))"
    by blast
  from one two show ?thesis unfolding c by (intro conjI)
qed



end
